theory Spec2Isabelle
  imports Main "HOL-Library.AList"
begin

section \<open>Python values, exceptions and strings\<close>

text \<open>
  The gateway is Python, so the values that flow through it are dynamically typed.
  \<open>pyval\<close> holds the JSON-like values the backend, \<open>json.loads\<close> and the tools
  exchange. A dict is an association list in insertion order; \<open>AList.update\<close> is
  Python's \<open>d[k] = v\<close> (the value is replaced in place, a new key goes last).
  A number is an \<open>int\<close>: the code only tests numbers for truthiness and type.
\<close>

datatype pyval =
    PNone
  | PBool bool
  | PInt int
  | PStr string
  | PList "pyval list"
  | PDict "(string \<times> pyval) list"

type_synonym pydict = "(string \<times> pyval) list"

text \<open>
  An exception is its class and its message (\<open>str(e)\<close>). The classes are the ones the
  handlers of the source tell apart: \<open>JSONDecodeError\<close> is a subclass of
  \<open>ValueError\<close>; \<open>Exception\<close> stands for every other subclass of \<open>Exception\<close>
  (database errors among them); \<open>BaseException\<close> stands for the exceptions that
  \<open>except Exception\<close> does not catch (\<open>KeyboardInterrupt\<close>, \<open>SystemExit\<close>,
  \<open>asyncio.CancelledError\<close>).
\<close>

datatype exn_class =
    JSONDecodeError
  | ValueError
  | TypeError
  | AttributeError
  | KeyError
  | RuntimeError
  | Exception
  | BaseException

datatype exn = Exn exn_class string

fun exn_kind :: "exn \<Rightarrow> exn_class" where
  "exn_kind (Exn c m) = c"

fun str_exn :: "exn \<Rightarrow> string" where
  "str_exn (Exn c m) = m"

definition isinstance_Exception :: "exn \<Rightarrow> bool" where
  "isinstance_Exception e = (exn_kind e \<noteq> BaseException)"

definition isinstance_ValueError :: "exn \<Rightarrow> bool" where
  "isinstance_ValueError e = (exn_kind e = ValueError \<or> exn_kind e = JSONDecodeError)"

definition isinstance_JSONDecodeError :: "exn \<Rightarrow> bool" where
  "isinstance_JSONDecodeError e = (exn_kind e = JSONDecodeError)"

definition isinstance_RuntimeError :: "exn \<Rightarrow> bool" where
  "isinstance_RuntimeError e = (exn_kind e = RuntimeError)"

text \<open>Truthiness (\<open>if x:\<close>, \<open>not x\<close>) and the type tests of the source.\<close>

fun truthy :: "pyval \<Rightarrow> bool" where
  "truthy PNone = False"
| "truthy (PBool b) = b"
| "truthy (PInt n) = (n \<noteq> 0)"
| "truthy (PStr s) = (s \<noteq> [])"
| "truthy (PList xs) = (xs \<noteq> [])"
| "truthy (PDict d) = (d \<noteq> [])"

fun is_dict :: "pyval \<Rightarrow> bool" where
  "is_dict (PDict d) = True"
| "is_dict v = False"

fun is_list :: "pyval \<Rightarrow> bool" where
  "is_list (PList xs) = True"
| "is_list v = False"

fun type_name :: "pyval \<Rightarrow> string" where
  "type_name PNone = ''NoneType''"
| "type_name (PBool b) = ''bool''"
| "type_name (PInt n) = ''int''"
| "type_name (PStr s) = ''str''"
| "type_name (PList xs) = ''list''"
| "type_name (PDict d) = ''dict''"

text \<open>
  Strings are lists of characters, each a code point below 256. \<open>str.strip()\<close>
  removes the characters for which \<open>str.isspace()\<close> holds; below 256 these are
  the code points 9 to 13, 28 to 32, 133 and 160.
\<close>

definition py_isspace :: "char \<Rightarrow> bool" where
  "py_isspace c =
     (let n = (of_char c :: nat)
      in (9 \<le> n \<and> n \<le> 13) \<or> (28 \<le> n \<and> n \<le> 32) \<or> n = 133 \<or> n = 160)"

definition py_lstrip :: "string \<Rightarrow> string" where
  "py_lstrip s = dropWhile py_isspace s"

definition py_rstrip :: "string \<Rightarrow> string" where
  "py_rstrip s = rev (dropWhile py_isspace (rev s))"

definition py_strip :: "string \<Rightarrow> string" where
  "py_strip s = py_lstrip (py_rstrip s)"

definition startswith :: "string \<Rightarrow> string \<Rightarrow> bool" where
  "startswith s p = (take (length p) s = p)"

definition endswith :: "string \<Rightarrow> string \<Rightarrow> bool" where
  "endswith s p = (drop (length s - length p) s = p)"

text \<open>\<open>sub in s\<close> on strings: \<open>sub\<close> occurs in \<open>s\<close> as a contiguous run.\<close>

fun py_in_str :: "string \<Rightarrow> string \<Rightarrow> bool" where
  "py_in_str sub [] = (sub = [])"
| "py_in_str sub (c # cs) = (startswith (c # cs) sub \<or> py_in_str sub cs)"

text \<open>\<open>s.replace(old, new)\<close> for a single character \<open>old\<close>.\<close>

definition replace_char :: "char \<Rightarrow> string \<Rightarrow> string \<Rightarrow> string" where
  "replace_char old new s = concat (map (\<lambda>c. if c = old then new else [c]) s)"

section \<open>LLMResponseInterceptor.fix_llm_response (app/utils/memory.py)\<close>

text \<open>
  \<open>json.loads\<close> belongs to the standard library, so the decoder is a parameter
  \<open>loads\<close>: \<open>Inr v\<close> is the decoded value, \<open>Inl e\<close> the exception it raises.
\<close>

type_synonym json_decoder = "string \<Rightarrow> exn + pyval"

definition canonical_facts :: string where
  \<open>canonical_facts = ''{"facts": []}''\<close>

text \<open>Lines 73 to 78: the three independent tests that drop the code-fence marks.\<close>

definition strip_code_fence :: "string \<Rightarrow> string" where
  "strip_code_fence t0 =
     (let t1 = (if startswith t0 ''```json'' then drop 7 t0 else t0);
          t2 = (if startswith t1 ''```'' then drop 3 t1 else t1);
          t3 = (if endswith t2 ''```'' then take (length t2 - 3) t2 else t2)
      in t3)"

text \<open>Lines 96 to 103: the repair tried after the first decoding attempt failed.\<close>

definition wrap_as_facts :: "string \<Rightarrow> string" where
  \<open>wrap_as_facts t =
     (if \<not> startswith t ''{''
      then (if startswith t ''[''
            then ''{"facts": '' @ t @ ''}''
            else ''{"facts": ["'' @ replace_char (CHR ''"'') [CHR 0x5C, CHR ''"''] t @ ''"]}'')
      else t)\<close>

text \<open>
  The first \<open>try\<close> catches \<open>json.JSONDecodeError\<close> only, so an exception of another
  class leaves the function; the second \<open>try\<close> has a bare \<open>except\<close>.
\<close>

definition fix_llm_response :: "json_decoder \<Rightarrow> string \<Rightarrow> exn + string" where
  "fix_llm_response loads response_text =
     (if response_text = [] \<or> py_strip response_text = [] then Inr canonical_facts
      else
        let cleaned = py_strip (strip_code_fence (py_strip response_text))
        in if cleaned = [] then Inr canonical_facts
           else
             case loads cleaned of
               Inr v \<Rightarrow> Inr cleaned
             | Inl e \<Rightarrow>
                 if isinstance_JSONDecodeError e
                 then (case loads (wrap_as_facts cleaned) of
                         Inr v \<Rightarrow> Inr (wrap_as_facts cleaned)
                       | Inl e2 \<Rightarrow> Inr canonical_facts)
                 else Inl e)"

text \<open>
  A small decoder for the closed examples below: it knows the documents the examples
  use and rejects every other text with a \<open>JSONDecodeError\<close>, as \<open>json.loads\<close> does on
  a text that is not JSON.
\<close>

definition example_loads :: json_decoder where
  \<open>example_loads t =
     (if t = ''{"facts": []}'' then Inr (PDict [(''facts'', PList [])])
      else if t = ''{}'' then Inr (PDict [])
      else if t = ''[]'' then Inr (PList [])
      else if t = ''{"facts": ["hello"]}'' then Inr (PDict [(''facts'', PList [PStr ''hello''])])
      else Inl (Exn JSONDecodeError ''Expecting value: line 1 column 1 (char 0)''))\<close>

section \<open>ResilientMemoryClient (app/utils/memory.py)\<close>

text \<open>
  The wrapped Mem0 client is external. A call is the method's name, its positional
  arguments and its keyword arguments; the backend answers a call with a value or
  raises, and its answer may depend on the calls made before (the engine is stateful
  and unreliable). Every wrapper method takes the calls made so far and returns its
  outcome with the calls extended, so that which backend calls were attempted is
  part of the result.
\<close>

datatype call = Call string "pyval list" pydict

type_synonym backend = "call list \<Rightarrow> call \<Rightarrow> exn + pyval"

text \<open>\<open>d.get(k)\<close>, with \<open>None\<close> for a missing key, and \<open>d.get(k, default)\<close>.\<close>

definition dict_get :: "pydict \<Rightarrow> string \<Rightarrow> pyval" where
  "dict_get d k = (case map_of d k of None \<Rightarrow> PNone | Some v \<Rightarrow> v)"

definition dict_get_default :: "pydict \<Rightarrow> string \<Rightarrow> pyval \<Rightarrow> pyval" where
  "dict_get_default d k dflt = (case map_of d k of None \<Rightarrow> dflt | Some v \<Rightarrow> v)"

text \<open>\<open>d.update(params)\<close>: the entries of \<open>params\<close> are stored in order.\<close>

definition dict_update :: "pydict \<Rightarrow> pydict \<Rightarrow> pydict" where
  "dict_update d params = fold (\<lambda>kv acc. AList.update (fst kv) (snd kv) acc) params d"

text \<open>\<open>{**v, ...}\<close> raises \<open>TypeError\<close> unless \<open>v\<close> is a mapping.\<close>

fun dict_unpack :: "pyval \<Rightarrow> exn + pydict" where
  "dict_unpack (PDict d) = Inr d"
| "dict_unpack v = Inl (Exn TypeError ([CHR 0x27] @ type_name v @ [CHR 0x27] @ '' object is not a mapping''))"

definition empty_relations :: pyval where
  "empty_relations = PDict [(''added_entities'', PList []), (''deleted_entities'', PList [])]"


text \<open>Lines 166 to 169 and 243 to 246: the two keys are added to a dict that lacks them.\<close>

fun ensure_structure :: "pyval \<Rightarrow> pyval" where
  "ensure_structure (PDict result) =
     (let r1 = (if map_of result ''results'' = None
                then AList.update ''results'' (PList []) result else result);
          r2 = (if map_of r1 ''relations'' = None
                then AList.update ''relations'' empty_relations r1 else r1)
      in PDict r2)"
| "ensure_structure v = v"

text \<open>
  \<open>len(v)\<close>. The logging lines format their f-strings before the call, so a \<open>len\<close>
  in them is evaluated, and raises where the value has no length.
\<close>

fun py_len :: "pyval \<Rightarrow> exn + nat" where
  "py_len (PList xs) = Inr (length xs)"
| "py_len (PDict d) = Inr (length d)"
| "py_len (PStr s) = Inr (length s)"
| "py_len v =
     Inl (Exn TypeError (''object of type '' @ [CHR 0x27] @ type_name v @ [CHR 0x27] @ '' has no len()''))"

text \<open>\<open>len(result.get('results', []))\<close>, in the logging lines 171 and 248.\<close>

fun results_count :: "pyval \<Rightarrow> exn + nat" where
  "results_count (PDict d) = py_len (dict_get_default d ''results'' (PList []))"
| "results_count v = py_len (PList [])"

text \<open>Lines 186 to 189: the parse-failure signatures, matched against \<open>str(e)\<close>.\<close>

definition is_json_error :: "string \<Rightarrow> bool" where
  "is_json_error error_msg =
     list_ex (\<lambda>keyword. py_in_str keyword error_msg)
       [''Expecting value'', ''JSON'', ''line 1 column 1'', ''Unterminated string'',
        ''Invalid control character'', ''json'']"

text \<open>
  Lines 200 to 222. A strategy is its \<open>params\<close> and its optional \<open>text_modifier\<close>
  (the description is only logged). The list is built before any strategy runs and
  outside every \<open>try\<close>; the third entry unpacks \<open>kwargs.get("metadata", {})\<close>.
\<close>

datatype strategy = Strategy pydict "(string \<Rightarrow> string) option"

definition simplify_text :: "string \<Rightarrow> string" where
  "simplify_text t = (if length t > 200 then take 200 (py_strip t) else py_strip t)"

definition fallback_strategies :: "pydict \<Rightarrow> exn + strategy list" where
  "fallback_strategies kwargs =
     (case dict_unpack (dict_get_default kwargs ''metadata'' (PDict [])) of
        Inl e \<Rightarrow> Inl e
      | Inr md \<Rightarrow>
          Inr [Strategy [(''infer'', PBool False)] None,
               Strategy [(''metadata'', PDict [(''source'', PStr ''resilient_fallback'')])] None,
               Strategy [(''infer'', PBool True),
                         (''metadata'', PDict (AList.update ''retry_attempt'' (PBool True) md))] None,
               Strategy [(''infer'', PBool True)] (Some simplify_text)])"

text \<open>
  Lines 224 to 255: the loop over the strategies. \<open>Inr (Some v)\<close> is the result a
  strategy returned, \<open>Inr None\<close> says that every strategy failed, \<open>Inl e\<close> is an
  exception that \<open>except Exception\<close> does not catch. The \<open>TypeError\<close> of the logging
  line 248 is an \<open>Exception\<close>: the loop goes on to the next strategy.
\<close>

fun try_fallbacks ::
  "backend \<Rightarrow> call list \<Rightarrow> string \<Rightarrow> pydict \<Rightarrow> strategy list \<Rightarrow> (exn + pyval option) \<times> call list"
where
  "try_fallbacks be tr text kwargs [] = (Inr None, tr)"
| "try_fallbacks be tr text kwargs (Strategy params text_modifier # rest) =
     (let fallback_kwargs = dict_update kwargs params;
          fallback_text = (case text_modifier of None \<Rightarrow> text | Some f \<Rightarrow> f text);
          c = Call ''add'' [PStr fallback_text] fallback_kwargs
      in case be tr c of
           Inr fallback_result \<Rightarrow>
             if truthy fallback_result \<and> is_dict fallback_result
             then (case results_count (ensure_structure fallback_result) of
                     Inr n \<Rightarrow> (Inr (Some (ensure_structure fallback_result)), tr @ [c])
                   | Inl fallback_error \<Rightarrow> try_fallbacks be (tr @ [c]) text kwargs rest)
             else try_fallbacks be (tr @ [c]) text kwargs rest
         | Inl fallback_error \<Rightarrow>
             if isinstance_Exception fallback_error
             then try_fallbacks be (tr @ [c]) text kwargs rest
             else (Inl fallback_error, tr @ [c]))"

text \<open>Lines 284 to 292: the result returned when every strategy failed.\<close>

definition all_strategies_failed :: "string \<Rightarrow> pydict \<Rightarrow> pyval" where
  "all_strategies_failed text kwargs =
     PDict [(''results'', PList []),
            (''relations'', empty_relations),
            (''diagnostic'',
               PDict [(''all_strategies_failed'', PBool True),
                      (''original_text_length'', PInt (int (length text))),
                      (''kwargs_keys'', PList (map (\<lambda>kv. PStr (fst kv)) kwargs))])]"

text \<open>Lines 258 to 274: the emergency direct-storage attempt.\<close>

definition emergency_call :: "string \<Rightarrow> pydict \<Rightarrow> call" where
  "emergency_call text kwargs =
     Call ''add'' [PStr text]
       [(''user_id'', dict_get kwargs ''user_id''),
        (''infer'', PBool False),
        (''metadata'', PDict [(''emergency_storage'', PBool True),
                              (''original_text'', PStr (take 100 text))])]"

definition emergency_storage ::
  "backend \<Rightarrow> call list \<Rightarrow> string \<Rightarrow> pydict \<Rightarrow> (exn + pyval) \<times> call list"
where
  "emergency_storage be tr text kwargs =
     (let c = emergency_call text kwargs
      in case be tr c of
           Inr final_result \<Rightarrow>
             if truthy final_result then (Inr final_result, tr @ [c])
             else (Inr (all_strategies_failed text kwargs), tr @ [c])
         | Inl final_error \<Rightarrow>
             if isinstance_Exception final_error
             then (Inr (all_strategies_failed text kwargs), tr @ [c])
             else (Inl final_error, tr @ [c]))"

text \<open>Lines 199 to 292: what \<open>add\<close> does once the direct call failed with a parse error.\<close>

definition add_fallback ::
  "backend \<Rightarrow> call list \<Rightarrow> string \<Rightarrow> pydict \<Rightarrow> (exn + pyval) \<times> call list"
where
  "add_fallback be tr text kwargs =
     (case fallback_strategies kwargs of
        Inl e \<Rightarrow> (Inl e, tr)
      | Inr strategies \<Rightarrow>
          (case try_fallbacks be tr text kwargs strategies of
             (Inl e, tr2) \<Rightarrow> (Inl e, tr2)
           | (Inr (Some fallback_result), tr2) \<Rightarrow> (Inr fallback_result, tr2)
           | (Inr None, tr2) \<Rightarrow> emergency_storage be tr2 text kwargs))"

text \<open>
  Lines 159 to 179: the body of the first \<open>try\<close>. A \<open>None\<close> from the backend is turned
  into an exception raised inside the \<open>try\<close>, so the handler below sees it too, as it
  sees the \<open>TypeError\<close> of the logging line 171.
\<close>

definition direct_call ::
  "backend \<Rightarrow> call list \<Rightarrow> string \<Rightarrow> pydict \<Rightarrow> exn + pyval"
where
  "direct_call be tr text kwargs =
     (case be tr (Call ''add'' [PStr text] kwargs) of
        Inr result \<Rightarrow>
          if is_dict result then
            (case results_count (ensure_structure result) of
               Inr n \<Rightarrow> Inr (ensure_structure result)
             | Inl e \<Rightarrow> Inl e)
          else if result \<noteq> PNone then Inr result
          else Inl (Exn Exception ''Memory client returned None'')
      | Inl e \<Rightarrow> Inl e)"

text \<open>Lines 145 to 292: \<open>ResilientMemoryClient.add(text, **kwargs)\<close>.\<close>

definition ResilientMemoryClient_add ::
  "backend \<Rightarrow> call list \<Rightarrow> string \<Rightarrow> pydict \<Rightarrow> (exn + pyval) \<times> call list"
where
  "ResilientMemoryClient_add be tr text kwargs =
     (let tr1 = tr @ [Call ''add'' [PStr text] kwargs]
      in case direct_call be tr text kwargs of
           Inr result \<Rightarrow> (Inr result, tr1)
         | Inl e \<Rightarrow>
             if isinstance_Exception e
             then (if is_json_error (str_exn e)
                   then add_fallback be tr1 text kwargs
                   else (Inl e, tr1))
             else (Inl e, tr1))"





text \<open>
  Lines 131 to 140: the patched \<open>generate_response\<close>. The original either raises or
  returns the response text (\<open>None\<close> included); whatever \<open>except Exception\<close> catches
  becomes the canonical empty document.
\<close>

definition patched_generate_response ::
  "json_decoder \<Rightarrow> exn + string option \<Rightarrow> exn + string"
where
  "patched_generate_response loads original =
     (let attempt =
            (case original of
               Inl e \<Rightarrow> Inl e
             | Inr None \<Rightarrow> Inr canonical_facts
             | Inr (Some response) \<Rightarrow> fix_llm_response loads response)
      in case attempt of
           Inr fixed \<Rightarrow> Inr fixed
         | Inl e \<Rightarrow> if isinstance_Exception e then Inr canonical_facts else Inl e)"


text \<open>Backends for the closed examples.\<close>

definition backend_returning :: "pyval \<Rightarrow> backend" where
  "backend_returning v = (\<lambda>tr c. Inr v)"

definition backend_raising :: "exn \<Rightarrow> backend" where
  "backend_raising e = (\<lambda>tr c. Inl e)"

definition parse_failure :: exn where
  "parse_failure = Exn Exception ''Expecting value: line 1 column 1 (char 0)''"

section \<open>The local store and what lies outside the repository\<close>

text \<open>
  The tools of \<open>app/mcp_server_optimized.py\<close> keep a shadow of the engine's records in
  a relational store (\<open>app.models\<close>, reached through a SQLAlchemy session). The tables
  are lists of rows in insertion order. The generated primary keys are not visible in
  the sources; a user row is identified by its unique \<open>user_id\<close>, an app row by its
  unique pair of owner and name, and a foreign key holds that identification.
  A UUID is its 128-bit integer value.
\<close>

type_synonym uuid = nat

type_synonym app_key = "string \<times> string"

datatype MemoryState = active | paused | deleted

record User =
  u_user_id :: string

record App =
  a_owner_id :: string
  a_name :: string
  a_is_active :: bool

record Memory =
  m_id :: uuid
  m_user_id :: string
  m_app_id :: app_key
  m_content :: pyval
  m_state :: MemoryState
  m_deleted_at :: "nat option"

record MemoryStatusHistory =
  h_memory_id :: uuid
  h_changed_by :: string
  h_old_state :: MemoryState
  h_new_state :: MemoryState

record MemoryAccessLog =
  l_memory_id :: uuid
  l_app_id :: app_key
  l_access_type :: string
  l_metadata :: pydict

record db =
  db_users :: "User list"
  db_apps :: "App list"
  db_memories :: "Memory list"
  db_history :: "MemoryStatusHistory list"
  db_access_logs :: "MemoryAccessLog list"

text \<open>
  The collaborators that are not part of the sources are the fields of an environment:
  \<^item> \<open>json_loads\<close>, \<open>json_dumps\<close> (with \<open>indent=2\<close>) and \<open>py_str\<close> (\<open>str(x)\<close>) of the
    standard library;
  \<^item> \<open>uuid_UUID\<close>, the parser \<open>uuid.UUID\<close> on strings, \<open>None\<close> when it raises
    \<open>ValueError\<close>;
  \<^item> \<open>check_memory_access_permissions\<close> of \<open>app.utils.permissions\<close>;
  \<^item> \<open>get_memory_client_safe\<close>, what the function of that name returns: \<open>None\<close>, or
    a client that answers a call with a value or raises;
  \<^item> \<open>default_is_active\<close>, the column default of \<open>App.is_active\<close>;
  \<^item> \<open>utc_now\<close>, the clock;
  \<^item> \<open>audit_fault\<close>: \<open>Some e\<close> when appending access-log rows to the store fails
    with the exception \<open>e\<close>. Every other operation of the store succeeds.
\<close>

record env =
  json_loads :: json_decoder
  json_dumps :: "pyval \<Rightarrow> string"
  py_str :: "pyval \<Rightarrow> string"
  uuid_UUID :: "string \<Rightarrow> uuid option"
  check_memory_access_permissions :: "db \<Rightarrow> Memory \<Rightarrow> app_key \<Rightarrow> bool"
  get_memory_client_safe :: "(call \<Rightarrow> exn + pyval) option"
  default_is_active :: bool
  utc_now :: nat
  audit_fault :: "exn option"

subsection \<open>Dynamic operations on Python values\<close>

text \<open>\<open>key in v\<close> for a string \<open>key\<close>.\<close>

fun py_contains :: "string \<Rightarrow> pyval \<Rightarrow> exn + bool" where
  "py_contains k (PDict d) = Inr (map_of d k \<noteq> None)"
| "py_contains k (PList xs) = Inr (list_ex (\<lambda>x. x = PStr k) xs)"
| "py_contains k (PStr s) = Inr (py_in_str k s)"
| "py_contains k v =
     Inl (Exn TypeError (''argument of type '' @ [CHR 0x27] @ type_name v @ [CHR 0x27] @ '' is not iterable''))"

text \<open>\<open>v[key]\<close> for a string \<open>key\<close>.\<close>

fun py_getitem :: "pyval \<Rightarrow> string \<Rightarrow> exn + pyval" where
  "py_getitem (PDict d) k =
     (case map_of d k of
        Some v \<Rightarrow> Inr v
      | None \<Rightarrow> Inl (Exn KeyError ([CHR 0x27] @ k @ [CHR 0x27])))"
| "py_getitem (PList xs) k = Inl (Exn TypeError ''list indices must be integers or slices, not str'')"
| "py_getitem (PStr s) k =
     Inl (Exn TypeError (''string indices must be integers, not '' @ [CHR 0x27] @ ''str'' @ [CHR 0x27]))"
| "py_getitem v k =
     Inl (Exn TypeError ([CHR 0x27] @ type_name v @ [CHR 0x27] @ '' object is not subscriptable''))"

text \<open>\<open>for x in v\<close>: a dict yields its keys, a string its characters.\<close>

fun py_iter :: "pyval \<Rightarrow> exn + pyval list" where
  "py_iter (PList xs) = Inr xs"
| "py_iter (PDict d) = Inr (map (\<lambda>kv. PStr (fst kv)) d)"
| "py_iter (PStr s) = Inr (map (\<lambda>c. PStr [c]) s)"
| "py_iter v =
     Inl (Exn TypeError ([CHR 0x27] @ type_name v @ [CHR 0x27] @ '' object is not iterable''))"

text \<open>
  \<open>uuid.UUID(v)\<close>: a string is parsed (\<open>ValueError\<close> when malformed); \<open>None\<close> raises
  \<open>TypeError\<close>, any other value has no \<open>replace\<close> method.
\<close>

fun UUID :: "env \<Rightarrow> pyval \<Rightarrow> exn + uuid" where
  "UUID E (PStr s) =
     (case uuid_UUID E s of
        Some u \<Rightarrow> Inr u
      | None \<Rightarrow> Inl (Exn ValueError ''badly formed hexadecimal UUID string''))"
| "UUID E PNone =
     Inl (Exn TypeError ''one of the hex, bytes, bytes_le, fields, or int arguments must be given'')"
| "UUID E v =
     Inl (Exn AttributeError
            ([CHR 0x27] @ type_name v @ [CHR 0x27] @ '' object has no attribute '' @ [CHR 0x27] @ ''replace'' @ [CHR 0x27]))"

text \<open>\<open>str(n)\<close> for a natural number.\<close>

fun str_of_nat :: "nat \<Rightarrow> string" where
  "str_of_nat n =
     (if n < 10 then [''0123456789'' ! n]
      else str_of_nat (n div 10) @ [''0123456789'' ! (n mod 10)])"

subsection \<open>Queries (app/utils/db.py and the tools)\<close>

text \<open>\<open>db.query(User).filter(User.user_id == user_id).first()\<close> and its likes.\<close>

definition query_user :: "db \<Rightarrow> string \<Rightarrow> User option" where
  "query_user d user_id = find (\<lambda>u. u_user_id u = user_id) (db_users d)"

definition query_app :: "db \<Rightarrow> string \<Rightarrow> string \<Rightarrow> App option" where
  "query_app d owner app_id = find (\<lambda>a. a_owner_id a = owner \<and> a_name a = app_id) (db_apps d)"

definition query_memory :: "db \<Rightarrow> uuid \<Rightarrow> Memory option" where
  "query_memory d memory_id = find (\<lambda>m. m_id m = memory_id) (db_memories d)"

definition app_id_of :: "App \<Rightarrow> app_key" where
  "app_id_of app = (a_owner_id app, a_name app)"

text \<open>
  \<open>get_or_create_user\<close>, \<open>get_or_create_app\<close>, \<open>get_user_and_app\<close>. The
  \<open>IntegrityError\<close> branches answer a concurrent insert of the same row; in a store
  that only this call changes the insert succeeds.
\<close>

definition get_or_create_user :: "db \<Rightarrow> string \<Rightarrow> User \<times> db" where
  "get_or_create_user d user_id =
     (case query_user d user_id of
        Some user \<Rightarrow> (user, d)
      | None \<Rightarrow>
          (let user = \<lparr>u_user_id = user_id\<rparr>
           in (user, d\<lparr>db_users := db_users d @ [user]\<rparr>)))"

definition get_or_create_app :: "env \<Rightarrow> db \<Rightarrow> User \<Rightarrow> string \<Rightarrow> App \<times> db" where
  "get_or_create_app E d user app_id =
     (case query_app d (u_user_id user) app_id of
        Some app \<Rightarrow> (app, d)
      | None \<Rightarrow>
          (let app = \<lparr>a_owner_id = u_user_id user, a_name = app_id,
                      a_is_active = default_is_active E\<rparr>
           in (app, d\<lparr>db_apps := db_apps d @ [app]\<rparr>)))"

definition get_user_and_app :: "env \<Rightarrow> db \<Rightarrow> string \<Rightarrow> string \<Rightarrow> User \<times> App \<times> db" where
  "get_user_and_app E d user_id app_id =
     (let ud = get_or_create_user d user_id;
          ad = get_or_create_app E (snd ud) (fst ud) app_id
      in (fst ud, fst ad, snd ad))"

subsection \<open>log_memory_access and filter_accessible_memories\<close>

text \<open>
  Lines 65 to 78. One row per id is added and the session is committed; \<open>Inl e\<close> is the
  exception raised when the append fails. The callers pass a list of ids.
\<close>

definition log_memory_access ::
  "env \<Rightarrow> db \<Rightarrow> uuid list \<Rightarrow> app_key \<Rightarrow> string \<Rightarrow> pydict \<Rightarrow> exn + db"
where
  "log_memory_access E d memory_ids app_id access_type metadata =
     (case audit_fault E of
        Some e \<Rightarrow> Inl e
      | None \<Rightarrow>
          Inr (d\<lparr>db_access_logs := db_access_logs d @
                   map (\<lambda>memory_id. \<lparr>l_memory_id = memory_id, l_app_id = app_id,
                                     l_access_type = access_type, l_metadata = metadata\<rparr>)
                       memory_ids\<rparr>))"

text \<open>
  Lines 98 to 107 and 110 to 119: one round of the loop. \<open>Inr (Some (record, id))\<close> is an
  accepted record, \<open>Inr None\<close> a skipped one, \<open>Inl e\<close> an exception that leaves the loop
  (the inner handler catches \<open>ValueError\<close> only; the membership test stands before the
  inner \<open>try\<close>).
\<close>

definition check_candidate :: "env \<Rightarrow> db \<Rightarrow> app_key \<Rightarrow> pyval \<Rightarrow> exn + (pyval \<times> uuid) option" where
  "check_candidate E d app_id memory_data =
     (case py_getitem memory_data ''id'' of
        Inl e \<Rightarrow> if isinstance_ValueError e then Inr None else Inl e
      | Inr idv \<Rightarrow>
          (case UUID E idv of
             Inl e \<Rightarrow> if isinstance_ValueError e then Inr None else Inl e
           | Inr memory_id \<Rightarrow>
               (case query_memory d memory_id of
                  None \<Rightarrow> Inr None
                | Some memory_obj \<Rightarrow>
                    if check_memory_access_permissions E d memory_obj app_id
                    then Inr (Some (memory_data, memory_id))
                    else Inr None)))"

definition envelope_step :: "env \<Rightarrow> db \<Rightarrow> app_key \<Rightarrow> pyval \<Rightarrow> exn + (pyval \<times> uuid) option" where
  "envelope_step E d app_id memory_data =
     (case py_contains ''id'' memory_data of
        Inl e \<Rightarrow> Inl e
      | Inr has_id \<Rightarrow> if has_id then check_candidate E d app_id memory_data else Inr None)"

definition list_step :: "env \<Rightarrow> db \<Rightarrow> app_key \<Rightarrow> pyval \<Rightarrow> exn + (pyval \<times> uuid) option" where
  "list_step E d app_id memory =
     (if is_dict memory then envelope_step E d app_id memory else Inr None)"

fun filter_loop ::
  "(pyval \<Rightarrow> exn + (pyval \<times> uuid) option) \<Rightarrow> pyval list \<Rightarrow> pyval list \<Rightarrow> uuid list
     \<Rightarrow> exn + (pyval list \<times> uuid list)"
where
  "filter_loop step [] accessible_memories memory_ids_for_logging =
     Inr (accessible_memories, memory_ids_for_logging)"
| "filter_loop step (x # xs) accessible_memories memory_ids_for_logging =
     (case step x of
        Inl e \<Rightarrow> Inl e
      | Inr None \<Rightarrow> filter_loop step xs accessible_memories memory_ids_for_logging
      | Inr (Some mi) \<Rightarrow>
          filter_loop step xs (accessible_memories @ [fst mi]) (memory_ids_for_logging @ [snd mi]))"

text \<open>
  Lines 80 to 125. Every exception the loop can raise is an \<open>Exception\<close>, which the
  outer handler turns into two empty lists.
\<close>

definition filter_accessible_memories ::
  "env \<Rightarrow> db \<Rightarrow> pyval \<Rightarrow> string \<Rightarrow> app_key \<Rightarrow> pyval list \<times> uuid list"
where
  "filter_accessible_memories E d memories user_id app_id =
     (if truthy memories then
        (case query_user d user_id of
           None \<Rightarrow> ([], [])
         | Some user \<Rightarrow>
             (let attempt =
                    (if is_dict memories \<and> py_contains ''results'' memories = Inr True then
                       (case py_getitem memories ''results'' of
                          Inl e \<Rightarrow> Inl e
                        | Inr results \<Rightarrow>
                            (case py_iter results of
                               Inl e \<Rightarrow> Inl e
                             | Inr items \<Rightarrow> filter_loop (envelope_step E d app_id) items [] []))
                     else if is_list memories then
                       (case py_iter memories of
                          Inl e \<Rightarrow> Inl e
                        | Inr items \<Rightarrow> filter_loop (list_step E d app_id) items [] [])
                     else Inr ([], []))
              in case attempt of
                   Inr found \<Rightarrow> found
                 | Inl e \<Rightarrow> ([], [])))
      else ([], []))"

text \<open>
  The candidates of a collection, in the words of the specification: the records of a
  flat list, or of the \<open>results\<close> list of an envelope; and the ids present in them.
\<close>

fun candidates :: "pyval \<Rightarrow> pyval list" where
  "candidates (PList xs) = xs"
| "candidates (PDict d) = (case map_of d ''results'' of Some (PList xs) \<Rightarrow> xs | _ \<Rightarrow> [])"
| "candidates v = []"

definition candidate_ids :: "env \<Rightarrow> pyval \<Rightarrow> uuid set" where
  "candidate_ids E memories =
     {u. \<exists>c s. c \<in> set (candidates memories) \<and> py_getitem c ''id'' = Inr (PStr s)
                \<and> uuid_UUID E s = Some u}"

text \<open>
  The ids a candidate carries, for the statement of the filter's properties: the
  record's \<open>id\<close> entry is a string that \<open>uuid.UUID\<close> parses to \<open>u\<close>.
\<close>

definition has_id :: "env \<Rightarrow> pyval \<Rightarrow> uuid \<Rightarrow> bool" where
  "has_id E c u = (\<exists>s. py_getitem c ''id'' = Inr (PStr s) \<and> uuid_UUID E s = Some u)"

section \<open>The tools (app/mcp_server_optimized.py)\<close>

text \<open>
  A tool reads the caller's identity from the two context variables
  (\<open>user_id_var.get(None)\<close>, \<open>client_name_var.get(None)\<close>; here \<open>uid_ctx\<close> and
  \<open>client_name_ctx\<close>, \<open>None\<close> when the variable holds no value) and returns a string. Its
  result here has three parts: the reply (\<open>Inr\<close> the string returned, \<open>Inl\<close> an
  exception that \<open>except Exception\<close> does not catch), the calls made on the memory
  client, and the store as committed when the session is closed: an exception drops
  what the session had not committed.
\<close>

type_synonym client = "call \<Rightarrow> exn + pyval"

type_synonym tool_result = "(exn + string) \<times> call list \<times> db"

text \<open>\<open>if not uid or not client_name\<close>: both must be present and not empty.\<close>

definition identity :: "string option \<Rightarrow> string option \<Rightarrow> (string \<times> string) option" where
  "identity uid client_name =
     (case uid of
        None \<Rightarrow> None
      | Some u \<Rightarrow>
          (case client_name of
             None \<Rightarrow> None
           | Some c \<Rightarrow> if u = [] \<or> c = [] then None else Some (u, c)))"

text \<open>The opening of every tool: the identity, then \<open>get_memory_client_safe()\<close>.\<close>

definition with_client ::
  "env \<Rightarrow> db \<Rightarrow> string option \<Rightarrow> string option
     \<Rightarrow> (string \<Rightarrow> string \<Rightarrow> client \<Rightarrow> tool_result) \<Rightarrow> tool_result"
where
  "with_client E d uid client_name body =
     (case identity uid client_name of
        None \<Rightarrow> (Inr ''Error: user_id and client_name are required'', [], d)
      | Some ident \<Rightarrow>
          (case get_memory_client_safe E of
             None \<Rightarrow>
               (Inr ''Error: Memory system is currently unavailable. Please try again later.'', [], d)
           | Some memory_client \<Rightarrow> body (fst ident) (snd ident) memory_client))"

text \<open>\<open>except Exception as e: return f"<prefix>{e}"\<close>, with the store as last committed.\<close>

definition error_reply :: "string \<Rightarrow> exn \<Rightarrow> call list \<Rightarrow> db \<Rightarrow> tool_result" where
  "error_reply prefix e calls d =
     (if isinstance_Exception e then (Inr (prefix @ str_exn e), calls, d) else (Inl e, calls, d))"

text \<open>The first row that satisfies \<open>P\<close> is changed (an attribute of a queried row is set).\<close>

fun update_first :: "('a \<Rightarrow> bool) \<Rightarrow> ('a \<Rightarrow> 'a) \<Rightarrow> 'a list \<Rightarrow> 'a list" where
  "update_first P f [] = []"
| "update_first P f (x # xs) = (if P x then f x # xs else x # update_first P f xs)"

subsection \<open>add_memories\<close>

text \<open>Lines 189 to 215: one round of the loop over \<open>response['results']\<close>.\<close>

definition add_result_step :: "env \<Rightarrow> User \<Rightarrow> App \<Rightarrow> db \<Rightarrow> pyval \<Rightarrow> exn + db" where
  "add_result_step E user app d result =
     (case py_getitem result ''id'' of
        Inl e \<Rightarrow> Inl e
      | Inr idv \<Rightarrow>
          (case UUID E idv of
             Inl e \<Rightarrow> Inl e
           | Inr memory_id \<Rightarrow>
               (case py_getitem result ''event'' of
                  Inl e \<Rightarrow> Inl e
                | Inr event \<Rightarrow>
                    if event = PStr ''ADD'' \<or> event = PStr ''UPDATE'' then
                      (case py_getitem result ''memory'' of
                         Inl e \<Rightarrow> Inl e
                       | Inr content \<Rightarrow>
                           (case query_memory d memory_id of
                              None \<Rightarrow>
                                Inr (d\<lparr>db_memories := db_memories d @
                                         [\<lparr>m_id = memory_id, m_user_id = u_user_id user,
                                           m_app_id = app_id_of app, m_content = content,
                                           m_state = active, m_deleted_at = None\<rparr>],
                                       db_history := db_history d @
                                         [\<lparr>h_memory_id = memory_id, h_changed_by = u_user_id user,
                                           h_old_state = active, h_new_state = active\<rparr>]\<rparr>)
                            | Some memory \<Rightarrow>
                                Inr (d\<lparr>db_memories :=
                                         update_first (\<lambda>m. m_id m = memory_id)
                                           (\<lambda>m. m\<lparr>m_content := content\<rparr>) (db_memories d),
                                       db_history := db_history d @
                                         [\<lparr>h_memory_id = memory_id, h_changed_by = u_user_id user,
                                           h_old_state = m_state memory, h_new_state = active\<rparr>]\<rparr>)))
                    else Inr d)))"

fun add_results_loop :: "env \<Rightarrow> User \<Rightarrow> App \<Rightarrow> pyval list \<Rightarrow> db \<Rightarrow> exn + db" where
  "add_results_loop E user app [] d = Inr d"
| "add_results_loop E user app (result # rest) d =
     (case add_result_step E user app d result of
        Inl e \<Rightarrow> Inl e
      | Inr d' \<Rightarrow> add_results_loop E user app rest d')"

text \<open>Lines 186 to 218: the shadow rows for the response, committed at the end.\<close>

definition record_add_response :: "env \<Rightarrow> User \<Rightarrow> App \<Rightarrow> db \<Rightarrow> pyval \<Rightarrow> exn + db" where
  "record_add_response E user app d response =
     (if is_dict response \<and> py_contains ''results'' response = Inr True then
        (case py_getitem response ''results'' of
           Inl e \<Rightarrow> Inl e
         | Inr results \<Rightarrow>
             (case py_len results of
                Inl e \<Rightarrow> Inl e
              | Inr n \<Rightarrow>
                  (case py_iter results of
                     Inl e \<Rightarrow> Inl e
                   | Inr items \<Rightarrow> add_results_loop E user app items d)))
      else Inr d)"

text \<open>Lines 127 to 230.\<close>

definition add_memories ::
  "env \<Rightarrow> db \<Rightarrow> string option \<Rightarrow> string option \<Rightarrow> string \<Rightarrow> string \<Rightarrow> bool \<Rightarrow> tool_result"
where
  "add_memories E d uid_ctx client_name_ctx text metadata infer =
     with_client E d uid_ctx client_name_ctx (\<lambda>uid client_name memory_client.
       case get_user_and_app E d uid client_name of (user, app, d1) \<Rightarrow>
         if a_is_active app then
           (case json_loads E metadata of
              Inl e \<Rightarrow>
                if isinstance_JSONDecodeError e
                then (Inr (''Error parsing JSON parameters: '' @ str_exn e), [], d1)
                else error_reply ''Error adding memory: '' e [] d1
            | Inr metadata_dict \<Rightarrow>
                (case dict_unpack metadata_dict of
                   Inl e \<Rightarrow> error_reply ''Error adding memory: '' e [] d1
                 | Inr md \<Rightarrow>
                     (let final_metadata =
                            dict_update [(''source_app'', PStr ''openmemory''),
                                         (''mcp_client'', PStr client_name)] md;
                          c = Call ''add'' [PStr text]
                                [(''user_id'', PStr uid), (''metadata'', PDict final_metadata),
                                 (''infer'', PBool infer)]
                      in case memory_client c of
                           Inl add_error \<Rightarrow> error_reply ''Error adding memory: '' add_error [c] d1
                         | Inr response \<Rightarrow>
                             if response = PNone
                             then (Inr ''Warning: Memory add operation completed but returned no response'',
                                   [c], d1)
                             else
                               (case record_add_response E user app d1 response of
                                  Inl e \<Rightarrow> error_reply ''Error adding memory: '' e [c] d1
                                | Inr d2 \<Rightarrow>
                                    (Inr (if is_dict response then json_dumps E response
                                          else py_str E response),
                                     [c], d2)))))
         else
           (Inr (''Error: App '' @ a_name app @ '' is currently paused. Cannot create new memories.''),
            [], d1))"

subsection \<open>search_memory and list_memories\<close>

text \<open>
  Lines 276 to 288 and 326 to 338, which the two tools share: the filter, the audit
  rows when a record was accepted, the serialized records.
\<close>

definition filter_and_log ::
  "env \<Rightarrow> db \<Rightarrow> string \<Rightarrow> App \<Rightarrow> pyval \<Rightarrow> string \<Rightarrow> (nat \<Rightarrow> pydict) \<Rightarrow> exn + (string \<times> db)"
where
  "filter_and_log E d uid app memories access_type metadata =
     (case filter_accessible_memories E d memories uid (app_id_of app) of
        (accessible_memories, memory_ids) \<Rightarrow>
          if memory_ids \<noteq> [] then
            (case log_memory_access E d memory_ids (app_id_of app) access_type
                    (metadata (length accessible_memories)) of
               Inl e \<Rightarrow> Inl e
             | Inr d' \<Rightarrow> Inr (json_dumps E (PList accessible_memories), d'))
          else Inr (json_dumps E (PList accessible_memories), d))"

text \<open>Lines 232 to 294.\<close>

definition search_memory ::
  "env \<Rightarrow> db \<Rightarrow> string option \<Rightarrow> string option \<Rightarrow> string \<Rightarrow> int \<Rightarrow> string \<Rightarrow> tool_result"
where
  "search_memory E d uid_ctx client_name_ctx query limit filters =
     with_client E d uid_ctx client_name_ctx (\<lambda>uid client_name memory_client.
       case get_user_and_app E d uid client_name of (user, app, d1) \<Rightarrow>
         (case json_loads E filters of
            Inl e \<Rightarrow>
              if isinstance_JSONDecodeError e
              then (Inr (''Error parsing filters JSON: '' @ str_exn e), [], d1)
              else error_reply ''Error searching memory: '' e [] d1
          | Inr filters_dict \<Rightarrow>
              (let search_params =
                     [(''query'', PStr query), (''user_id'', PStr uid), (''limit'', PInt limit)]
                     @ (if truthy filters_dict then [(''filters'', filters_dict)] else []);
                   c = Call ''search'' [] search_params
               in case memory_client c of
                    Inl search_error \<Rightarrow> error_reply ''Error searching memory: '' search_error [c] d1
                  | Inr found \<Rightarrow>
                      (let memories = (if found = PNone then PList [] else found)
                       in case filter_and_log E d1 uid app memories ''search''
                                 (\<lambda>n. [(''query'', PStr query), (''results_count'', PInt (int n))]) of
                            Inl e \<Rightarrow> error_reply ''Error searching memory: '' e [c] d1
                          | Inr (reply, d2) \<Rightarrow> (Inr reply, [c], d2)))))"

text \<open>Lines 296 to 344.\<close>

definition list_memories ::
  "env \<Rightarrow> db \<Rightarrow> string option \<Rightarrow> string option \<Rightarrow> tool_result"
where
  "list_memories E d uid_ctx client_name_ctx =
     with_client E d uid_ctx client_name_ctx (\<lambda>uid client_name memory_client.
       case get_user_and_app E d uid client_name of (user, app, d1) \<Rightarrow>
         (let c = Call ''get_all'' [] [(''user_id'', PStr uid)]
          in case memory_client c of
               Inl get_all_error \<Rightarrow> error_reply ''Error listing memories: '' get_all_error [c] d1
             | Inr found \<Rightarrow>
                 (let memories = (if found = PNone then PList [] else found)
                  in case filter_and_log E d1 uid app memories ''list''
                            (\<lambda>n. [(''total_count'', PInt (int n))]) of
                       Inl e \<Rightarrow> error_reply ''Error listing memories: '' e [c] d1
                     | Inr (reply, d2) \<Rightarrow> (Inr reply, [c], d2))))"

subsection \<open>The tools that delete\<close>

text \<open>
  Lines 385 to 397, 655 to 667 and 872 to 884: the row with this id, when there is one,
  is marked deleted and a history row is added.
\<close>

definition mark_deleted :: "env \<Rightarrow> User \<Rightarrow> db \<Rightarrow> uuid \<Rightarrow> db" where
  "mark_deleted E user d memory_id =
     (case query_memory d memory_id of
        None \<Rightarrow> d
      | Some memory \<Rightarrow>
          d\<lparr>db_memories :=
               update_first (\<lambda>m. m_id m = memory_id)
                 (\<lambda>m. m\<lparr>m_state := deleted, m_deleted_at := Some (utc_now E)\<rparr>) (db_memories d),
             db_history := db_history d @
               [\<lparr>h_memory_id = memory_id, h_changed_by = u_user_id user,
                 h_old_state = active, h_new_state = deleted\<rparr>]\<rparr>)"

text \<open>Lines 346 to 413.\<close>

definition delete_all_memories ::
  "env \<Rightarrow> db \<Rightarrow> string option \<Rightarrow> string option \<Rightarrow> tool_result"
where
  "delete_all_memories E d uid_ctx client_name_ctx =
     with_client E d uid_ctx client_name_ctx (\<lambda>uid client_name memory_client.
       case get_user_and_app E d uid client_name of (user, app, d1) \<Rightarrow>
         (let user_memories = filter (\<lambda>m. m_user_id m = u_user_id user) (db_memories d1);
              accessible_memory_ids =
                map m_id (filter (\<lambda>m. check_memory_access_permissions E d1 m (app_id_of app))
                            user_memories);
              c = Call ''delete_all'' [] [(''user_id'', PStr uid)]
          in case memory_client c of
               Inl delete_error \<Rightarrow> error_reply ''Error deleting memories: '' delete_error [c] d1
             | Inr response \<Rightarrow>
                 (let d2 = fold (\<lambda>memory_id acc. mark_deleted E user acc memory_id)
                             accessible_memory_ids d1;
                      logged =
                        (if accessible_memory_ids \<noteq> [] then
                           log_memory_access E d2 accessible_memory_ids (app_id_of app) ''delete_all''
                             [(''operation'', PStr ''bulk_delete''),
                              (''count'', PInt (int (length accessible_memory_ids)))]
                         else Inr d2)
                  in case logged of
                       Inl e \<Rightarrow> error_reply ''Error deleting memories: '' e [c] d1
                     | Inr d3 \<Rightarrow>
                         (Inr (''Successfully deleted '' @ str_of_nat (length accessible_memory_ids)
                               @ '' accessible memories''),
                          [c], d3))))"

text \<open>
  Lines 653 to 678 of \<open>delete_memory\<close>: the local update, inside a \<open>try\<close> whose handler
  passes on \<open>ValueError\<close>. What was not committed when the handler runs is dropped.
\<close>

definition delete_local :: "env \<Rightarrow> User \<Rightarrow> App \<Rightarrow> db \<Rightarrow> string \<Rightarrow> exn + db" where
  "delete_local E user app d memory_id =
     (case uuid_UUID E memory_id of
        None \<Rightarrow> Inr d
      | Some memory_uuid \<Rightarrow>
          (case query_memory d memory_uuid of
             None \<Rightarrow> Inr d
           | Some memory \<Rightarrow>
               (case log_memory_access E (mark_deleted E user d memory_uuid) [memory_uuid]
                       (app_id_of app) ''delete'' [(''operation'', PStr ''delete_single'')] of
                  Inl e \<Rightarrow> if isinstance_ValueError e then Inr d else Inl e
                | Inr d' \<Rightarrow> Inr d')))"

text \<open>Lines 624 to 686.\<close>

definition delete_memory ::
  "env \<Rightarrow> db \<Rightarrow> string option \<Rightarrow> string option \<Rightarrow> string \<Rightarrow> tool_result"
where
  "delete_memory E d uid_ctx client_name_ctx memory_id =
     with_client E d uid_ctx client_name_ctx (\<lambda>uid client_name memory_client.
       case get_user_and_app E d uid client_name of (user, app, d1) \<Rightarrow>
         (let c = Call ''delete'' [PStr memory_id] [(''user_id'', PStr uid)]
          in case memory_client c of
               Inl delete_error \<Rightarrow> error_reply ''Error deleting memory: '' delete_error [c] d1
             | Inr response \<Rightarrow>
                 (case delete_local E user app d1 memory_id of
                    Inl e \<Rightarrow> error_reply ''Error deleting memory: '' e [c] d1
                  | Inr d2 \<Rightarrow> (Inr (''Successfully deleted memory '' @ memory_id), [c], d2))))"

text \<open>Lines 868 to 888: the loop of \<open>batch_delete_memories\<close> over the decoded ids.\<close>

fun batch_delete_loop ::
  "env \<Rightarrow> User \<Rightarrow> pyval list \<Rightarrow> db \<Rightarrow> uuid list \<Rightarrow> exn + (db \<times> uuid list)"
where
  "batch_delete_loop E user [] d valid_uuids = Inr (d, valid_uuids)"
| "batch_delete_loop E user (memory_id # rest) d valid_uuids =
     (case UUID E memory_id of
        Inl e \<Rightarrow>
          if isinstance_ValueError e then batch_delete_loop E user rest d valid_uuids else Inl e
      | Inr memory_uuid \<Rightarrow>
          (case query_memory d memory_uuid of
             None \<Rightarrow> batch_delete_loop E user rest d valid_uuids
           | Some memory \<Rightarrow>
               batch_delete_loop E user rest (mark_deleted E user d memory_uuid)
                 (valid_uuids @ [memory_uuid])))"

text \<open>Lines 827 to 904.\<close>

definition batch_delete_memories ::
  "env \<Rightarrow> db \<Rightarrow> string option \<Rightarrow> string option \<Rightarrow> string \<Rightarrow> tool_result"
where
  "batch_delete_memories E d uid_ctx client_name_ctx memory_ids_json =
     with_client E d uid_ctx client_name_ctx (\<lambda>uid client_name memory_client.
       case json_loads E memory_ids_json of
         Inl e \<Rightarrow>
           if isinstance_JSONDecodeError e
           then (Inr (''Error parsing memory_ids JSON: '' @ str_exn e), [], d)
           else error_reply ''Error in batch delete: '' e [] d
       | Inr memory_ids \<Rightarrow>
           (case memory_ids of
              PList ids \<Rightarrow>
                (case get_user_and_app E d uid client_name of (user, app, d1) \<Rightarrow>
                   (let c = Call ''batch_delete'' [memory_ids] [(''user_id'', PStr uid)]
                    in case memory_client c of
                         Inl batch_error \<Rightarrow> error_reply ''Error in batch delete: '' batch_error [c] d1
                       | Inr response \<Rightarrow>
                           (case batch_delete_loop E user ids d1 [] of
                              Inl e \<Rightarrow> error_reply ''Error in batch delete: '' e [c] d1
                            | Inr (d2, valid_uuids) \<Rightarrow>
                                (let logged =
                                       (if valid_uuids \<noteq> [] then
                                          log_memory_access E d2 valid_uuids (app_id_of app)
                                            ''batch_delete''
                                            [(''operation'', PStr ''batch_delete''),
                                             (''count'', PInt (int (length valid_uuids)))]
                                        else Inr d2)
                                 in case logged of
                                      Inl e \<Rightarrow> error_reply ''Error in batch delete: '' e [c] d1
                                    | Inr d3 \<Rightarrow>
                                        (Inr (''Successfully batch deleted ''
                                              @ str_of_nat (length valid_uuids) @ '' memories''),
                                         [c], d3)))))
            | _ \<Rightarrow> (Inr ''Error: memory_ids must be a JSON array'', [], d)))"

subsection \<open>get_memory, update_memory, get_memory_history, get_entities\<close>

text \<open>
  Lines 550 to 557, 607 to 614 and 717 to 724: the audit row for one id, inside a
  \<open>try\<close> whose handler passes on \<open>ValueError\<close> (an id that does not parse, and any
  other \<open>ValueError\<close> raised inside).
\<close>

definition log_single_access ::
  "env \<Rightarrow> db \<Rightarrow> App \<Rightarrow> string \<Rightarrow> string \<Rightarrow> pydict \<Rightarrow> exn + db"
where
  "log_single_access E d app memory_id access_type metadata =
     (case uuid_UUID E memory_id of
        None \<Rightarrow> Inr d
      | Some memory_uuid \<Rightarrow>
          (case log_memory_access E d [memory_uuid] (app_id_of app) access_type metadata of
             Inl e \<Rightarrow> if isinstance_ValueError e then Inr d else Inl e
           | Inr d' \<Rightarrow> Inr d'))"

text \<open>Lines 521 to 565.\<close>

definition get_memory ::
  "env \<Rightarrow> db \<Rightarrow> string option \<Rightarrow> string option \<Rightarrow> string \<Rightarrow> tool_result"
where
  "get_memory E d uid_ctx client_name_ctx memory_id =
     with_client E d uid_ctx client_name_ctx (\<lambda>uid client_name memory_client.
       case get_user_and_app E d uid client_name of (user, app, d1) \<Rightarrow>
         (let c = Call ''get'' [PStr memory_id] [(''user_id'', PStr uid)]
          in case memory_client c of
               Inl get_error \<Rightarrow> error_reply ''Error getting memory: '' get_error [c] d1
             | Inr memory \<Rightarrow>
                 if memory = PNone
                 then (Inr (''Memory with ID '' @ memory_id @ '' not found''), [c], d1)
                 else
                   (case log_single_access E d1 app memory_id ''get''
                           [(''operation'', PStr ''get_by_id'')] of
                      Inl e \<Rightarrow> error_reply ''Error getting memory: '' e [c] d1
                    | Inr d2 \<Rightarrow> (Inr (json_dumps E memory), [c], d2))))"

text \<open>
  Lines 567 to 622. A \<open>metadata\<close> text that does not decode is replaced by the empty
  dict (lines 581 to 584), before the session is opened.
\<close>

definition update_memory ::
  "env \<Rightarrow> db \<Rightarrow> string option \<Rightarrow> string option \<Rightarrow> string \<Rightarrow> string \<Rightarrow> string \<Rightarrow> tool_result"
where
  "update_memory E d uid_ctx client_name_ctx memory_id text metadata =
     with_client E d uid_ctx client_name_ctx (\<lambda>uid client_name memory_client.
       let decoded =
             (case json_loads E metadata of
                Inl e \<Rightarrow> if isinstance_JSONDecodeError e then Inr (PDict []) else Inl e
              | Inr v \<Rightarrow> Inr v)
       in case decoded of
            Inl e \<Rightarrow> error_reply ''Error updating memory: '' e [] d
          | Inr metadata_dict \<Rightarrow>
              (case get_user_and_app E d uid client_name of (user, app, d1) \<Rightarrow>
                 (let c = Call ''update'' [PStr memory_id, PStr text]
                            [(''user_id'', PStr uid), (''metadata'', metadata_dict)]
                  in case memory_client c of
                       Inl update_error \<Rightarrow> error_reply ''Error updating memory: '' update_error [c] d1
                     | Inr response \<Rightarrow>
                         if response = PNone
                         then (Inr (''Memory with ID '' @ memory_id
                                    @ '' not found or could not be updated''), [c], d1)
                         else
                           (case log_single_access E d1 app memory_id ''update''
                                   [(''operation'', PStr ''update_memory''),
                                    (''text_length'', PInt (int (length text)))] of
                              Inl e \<Rightarrow> error_reply ''Error updating memory: '' e [c] d1
                            | Inr d2 \<Rightarrow> (Inr (json_dumps E response), [c], d2)))))"

text \<open>Lines 688 to 732.\<close>

definition get_memory_history ::
  "env \<Rightarrow> db \<Rightarrow> string option \<Rightarrow> string option \<Rightarrow> string \<Rightarrow> tool_result"
where
  "get_memory_history E d uid_ctx client_name_ctx memory_id =
     with_client E d uid_ctx client_name_ctx (\<lambda>uid client_name memory_client.
       case get_user_and_app E d uid client_name of (user, app, d1) \<Rightarrow>
         (let c = Call ''history'' [PStr memory_id] [(''user_id'', PStr uid)]
          in case memory_client c of
               Inl history_error \<Rightarrow>
                 error_reply ''Error getting memory history: '' history_error [c] d1
             | Inr history \<Rightarrow>
                 if history = PNone
                 then (Inr (''No history found for memory '' @ memory_id), [c], d1)
                 else
                   (case log_single_access E d1 app memory_id ''history''
                           [(''operation'', PStr ''get_history'')] of
                      Inl e \<Rightarrow> error_reply ''Error getting memory history: '' e [c] d1
                    | Inr d2 \<Rightarrow> (Inr (json_dumps E history), [c], d2))))"

text \<open>Lines 734 to 762.\<close>

definition get_entities ::
  "env \<Rightarrow> db \<Rightarrow> string option \<Rightarrow> string option \<Rightarrow> tool_result"
where
  "get_entities E d uid_ctx client_name_ctx =
     with_client E d uid_ctx client_name_ctx (\<lambda>uid client_name memory_client.
       let c = Call ''users'' [] []
       in case memory_client c of
            Inl users_error \<Rightarrow> error_reply ''Error getting entities: '' users_error [c] d
          | Inr entities \<Rightarrow>
              if entities = PNone then (Inr ''No entities found'', [c], d)
              else (Inr (json_dumps E entities), [c], d))"

subsection \<open>batch_update_memories\<close>

text \<open>Lines 805 to 811: the ids of the updates, for the audit rows.\<close>

fun batch_update_ids :: "env \<Rightarrow> pyval list \<Rightarrow> uuid list \<Rightarrow> exn + uuid list" where
  "batch_update_ids E [] memory_ids = Inr memory_ids"
| "batch_update_ids E (update # rest) memory_ids =
     (case py_contains ''memory_id'' update of
        Inl e \<Rightarrow> Inl e
      | Inr has_memory_id \<Rightarrow>
          if has_memory_id then
            (case py_getitem update ''memory_id'' of
               Inl e \<Rightarrow>
                 if isinstance_ValueError e then batch_update_ids E rest memory_ids else Inl e
             | Inr idv \<Rightarrow>
                 (case UUID E idv of
                    Inl e \<Rightarrow>
                      if isinstance_ValueError e then batch_update_ids E rest memory_ids else Inl e
                  | Inr memory_uuid \<Rightarrow> batch_update_ids E rest (memory_ids @ [memory_uuid])))
          else batch_update_ids E rest memory_ids)"

text \<open>Lines 764 to 825.\<close>

definition batch_update_memories ::
  "env \<Rightarrow> db \<Rightarrow> string option \<Rightarrow> string option \<Rightarrow> string \<Rightarrow> tool_result"
where
  "batch_update_memories E d uid_ctx client_name_ctx updates_json =
     with_client E d uid_ctx client_name_ctx (\<lambda>uid client_name memory_client.
       case json_loads E updates_json of
         Inl e \<Rightarrow>
           if isinstance_JSONDecodeError e
           then (Inr (''Error parsing updates JSON: '' @ str_exn e), [], d)
           else error_reply ''Error in batch update: '' e [] d
       | Inr updates \<Rightarrow>
           (case updates of
              PList items \<Rightarrow>
                (case get_user_and_app E d uid client_name of (user, app, d1) \<Rightarrow>
                   (let c = Call ''batch_update'' [updates] [(''user_id'', PStr uid)]
                    in case memory_client c of
                         Inl batch_error \<Rightarrow> error_reply ''Error in batch update: '' batch_error [c] d1
                       | Inr response \<Rightarrow>
                           if response = PNone
                           then (Inr ''Batch update completed (returned None)'', [c], d1)
                           else
                             (case batch_update_ids E items [] of
                                Inl e \<Rightarrow> error_reply ''Error in batch update: '' e [c] d1
                              | Inr memory_ids \<Rightarrow>
                                  (let logged =
                                         (if memory_ids \<noteq> [] then
                                            log_memory_access E d1 memory_ids (app_id_of app)
                                              ''batch_update''
                                              [(''operation'', PStr ''batch_update''),
                                               (''count'', PInt (int (length memory_ids)))]
                                          else Inr d1)
                                   in case logged of
                                        Inl e \<Rightarrow> error_reply ''Error in batch update: '' e [c] d1
                                      | Inr d2 \<Rightarrow> (Inr (json_dumps E response), [c], d2)))))
            | _ \<Rightarrow> (Inr ''Error: updates must be a JSON array'', [], d)))"

section \<open>The SSE session handler (handle_sse, lines 416 to 478)\<close>

text \<open>
  The module holds the set \<open>active_connections\<close> and the counter
  \<open>connection_counter\<close>; the handler's context holds the two context variables, each
  with a value or none. \<open>ContextVar.set\<close> returns a token that remembers what the
  variable held; \<open>ContextVar.reset(token)\<close> puts that back.
\<close>

record sse_state =
  active_connections :: "string set"
  connection_counter :: nat
  user_id_var :: "string option"
  client_name_var :: "string option"

text \<open>
  The transport and the MCP server are external. What they do in one session:
  \<^item> \<open>connect_sse\<close>: the exception raised on entering \<open>sse.connect_sse(...)\<close>, if any;
  \<^item> \<open>server_run\<close>: the exception raised by the \<open>sleep\<close> or by
    \<open>mcp._mcp_server.run(...)\<close>, if any (a cancellation is a \<open>BaseException\<close>);
  \<^item> \<open>exit_sse\<close>: what leaving the \<open>async with\<close> block makes of the exception that
    reaches it (it may pass it on, replace it or swallow it);
  \<^item> \<open>other_tasks\<close>: what the other handlers do to the state while this one waits.
\<close>

record transport =
  connect_sse :: "exn option"
  server_run :: "exn option"
  exit_sse :: "exn option \<Rightarrow> exn option"
  other_tasks :: "sse_state \<Rightarrow> sse_state"

text \<open>\<open>f"{client_name}:{uid}:{connection_counter}"\<close>; a missing path parameter prints as \<open>None\<close>.\<close>

definition format_param :: "string option \<Rightarrow> string" where
  "format_param p = (case p of None \<Rightarrow> ''None'' | Some s \<Rightarrow> s)"

definition connection_id :: "string option \<Rightarrow> string option \<Rightarrow> nat \<Rightarrow> string" where
  "connection_id client_name uid counter =
     format_param client_name @ '':'' @ format_param uid @ '':'' @ str_of_nat counter"

text \<open>\<open>uid or ""\<close>.\<close>

definition or_empty :: "string option \<Rightarrow> string" where
  "or_empty p = (case p of None \<Rightarrow> [] | Some s \<Rightarrow> s)"

text \<open>
  Lines 438 to 466: the \<open>async with\<close> block. The inner handlers catch \<open>RuntimeError\<close>
  (either message is only logged) and \<open>Exception\<close>. The result is the state and the
  exception that leaves the block.
\<close>

definition sse_session :: "transport \<Rightarrow> sse_state \<Rightarrow> sse_state \<times> exn option" where
  "sse_session T st =
     (case connect_sse T of
        Some e \<Rightarrow> (other_tasks T st, Some e)
      | None \<Rightarrow>
          (let st' = other_tasks T st;
               uncaught =
                 (case server_run T of
                    None \<Rightarrow> None
                  | Some e \<Rightarrow>
                      if isinstance_RuntimeError e then None
                      else if isinstance_Exception e then None
                      else Some e)
           in (st', exit_sse T uncaught)))"

text \<open>
  The whole handler: the state it leaves and the exception that escapes it, if any
  (the outer handler catches \<open>Exception\<close>; the \<open>finally\<close> block runs on every path).
\<close>

definition handle_sse ::
  "transport \<Rightarrow> sse_state \<Rightarrow> string option \<Rightarrow> string option \<Rightarrow> sse_state \<times> exn option"
where
  "handle_sse T st uid client_name =
     (let counter = connection_counter st + 1;
          cid = connection_id client_name uid counter;
          user_token = user_id_var st;
          client_token = client_name_var st;
          st1 = st\<lparr>connection_counter := counter,
                   user_id_var := Some (or_empty uid),
                   client_name_var := Some (or_empty client_name)\<rparr>;
          st2 = st1\<lparr>active_connections := insert cid (active_connections st1)\<rparr>;
          body = sse_session T st2;
          escaped =
            (case snd body of
               None \<Rightarrow> None
             | Some e \<Rightarrow> if isinstance_Exception e then None else Some e);
          st3 = (fst body)\<lparr>active_connections := active_connections (fst body) - {cid},
                           user_id_var := user_token,
                           client_name_var := client_token\<rparr>
      in (st3, escaped))"

section \<open>An environment for the closed examples\<close>

text \<open>
  The closed examples below run the tools in a small world: a parser that knows two
  UUID strings, a serializer that prints a value compactly, a store with one user,
  one app and one memory, and a client whose \<open>search\<close> and \<open>get_all\<close> return that
  memory's record next to a record whose id is not a UUID.
\<close>

definition example_uuid :: "string \<Rightarrow> uuid option" where
  "example_uuid s =
     (if s = ''00000000-0000-0000-0000-000000000001'' then Some 1
      else if s = ''00000000-0000-0000-0000-000000000002'' then Some 2
      else None)"

definition example_dumps :: "pyval \<Rightarrow> string" where
  "example_dumps v =
     (case v of
        PNone \<Rightarrow> ''null''
      | PBool b \<Rightarrow> (if b then ''true'' else ''false'')
      | PInt n \<Rightarrow> (if n < 0 then ''-'' else []) @ str_of_nat (nat (abs n))
      | PStr s \<Rightarrow> [CHR 0x22] @ s @ [CHR 0x22]
      | PList xs \<Rightarrow> ''[<'' @ str_of_nat (length xs) @ '' items>]''
      | PDict d \<Rightarrow> ''{<'' @ str_of_nat (length d) @ '' entries>}'')"

definition example_record :: pyval where
  "example_record =
     PDict [(''id'', PStr ''00000000-0000-0000-0000-000000000001''),
            (''memory'', PStr ''Likes coffee'')]"

definition example_bad_record :: pyval where
  "example_bad_record = PDict [(''id'', PStr ''not-a-uuid''), (''memory'', PStr ''Likes tea'')]"

definition example_client :: client where
  "example_client c =
     (case c of Call name args kwargs \<Rightarrow>
        if name = ''search'' \<or> name = ''get_all''
        then Inr (PDict [(''results'', PList [example_record, example_bad_record])])
        else if name = ''delete'' \<or> name = ''delete_all'' \<or> name = ''batch_delete''
        then Inr PNone
        else Inr (PDict [(''id'', PStr ''00000000-0000-0000-0000-000000000001''),
                         (''memory'', PStr ''Likes coffee a lot'')]))"

definition example_db :: db where
  "example_db =
     \<lparr>db_users = [\<lparr>u_user_id = ''ana''\<rparr>],
      db_apps = [\<lparr>a_owner_id = ''ana'', a_name = ''cursor'', a_is_active = True\<rparr>],
      db_memories = [\<lparr>m_id = 1, m_user_id = ''ana'', m_app_id = (''ana'', ''cursor''),
                       m_content = PStr ''Likes coffee'', m_state = active,
                       m_deleted_at = None\<rparr>],
      db_history = [],
      db_access_logs = []\<rparr>"

definition example_env :: env where
  "example_env =
     \<lparr>json_loads = example_loads,
      json_dumps = example_dumps,
      py_str = example_dumps,
      uuid_UUID = example_uuid,
      check_memory_access_permissions = (\<lambda>d memory app_id. m_app_id memory = app_id),
      get_memory_client_safe = Some example_client,
      default_is_active = True,
      utc_now = 1000,
      audit_fault = None\<rparr>"

definition audit_down :: exn where
  "audit_down = Exn Exception ''database is locked''"

text \<open>
  \<open>json.loads\<close> on a text that is one integer literal (a run of decimal digits with no
  leading zero). CPython, from 3.11 on, refuses to convert a string of more than
  \<open>sys.get_int_max_str_digits()\<close> digits (4300 by default) to an integer: the
  conversion raises \<open>ValueError\<close>, which the decoder passes on as it is (it is not a
  \<open>JSONDecodeError\<close>). On every other text the decoder of the examples answers.
\<close>

definition int_max_str_digits :: nat where
  "int_max_str_digits = 4300"

definition is_decimal_digit :: "char \<Rightarrow> bool" where
  "is_decimal_digit c = (c \<in> set ''0123456789'')"

definition digits_value :: "string \<Rightarrow> int" where
  "digits_value t = foldl (\<lambda>n c. 10 * n + (int (of_char c) - 48)) 0 t"

definition loads_with_int_limit :: json_decoder where
  "loads_with_int_limit t =
     (if t \<noteq> [] \<and> list_all is_decimal_digit t \<and> (length t = 1 \<or> hd t \<noteq> CHR ''0'')
      then (if length t > int_max_str_digits
            then Inl (Exn ValueError
                        (''Exceeds the limit ('' @ str_of_nat int_max_str_digits
                         @ '' digits) for integer string conversion: value has ''
                         @ str_of_nat (length t)
                         @ '' digits; use sys.set_int_max_str_digits() to increase the limit''))
            else Inr (PInt (digits_value t)))
      else example_loads t)"

text \<open>Two records whose \<open>id\<close> is not a string: the integer 123 and \<open>None\<close>.\<close>

definition example_int_id_record :: pyval where
  "example_int_id_record = PDict [(''id'', PInt 123), (''memory'', PStr ''Likes tea'')]"

definition example_none_id_record :: pyval where
  "example_none_id_record = PDict [(''id'', PNone), (''memory'', PStr ''Likes tea'')]"

section \<open>Properties of the response repair\<close>


lemma py_isspace_simps:
  "py_isspace (CHR '' '')" "\<not> py_isspace (CHR ''`'')" "\<not> py_isspace (CHR ''j'')"
  by (simp_all add: py_isspace_def)

lemma py_strip_blank:
  "list_all py_isspace w \<Longrightarrow> py_strip w = []"
proof -
  assume "list_all py_isspace w"
  then have h: "dropWhile py_isspace (rev w) = []"
    by (simp add: list_all_iff)
  show ?thesis
    unfolding py_strip_def py_rstrip_def py_lstrip_def
    by (simp only: h rev.simps dropWhile.simps)
qed

lemma dropWhile_blank_prefix:
  "list_all py_isspace w \<Longrightarrow> x \<noteq> [] \<Longrightarrow> \<not> py_isspace (hd x)
   \<Longrightarrow> dropWhile py_isspace (w @ x) = x"
  by (cases x) (simp_all add: list_all_iff)

lemma py_strip_core:
  assumes "x \<noteq> []" "\<not> py_isspace (hd x)" "\<not> py_isspace (last x)"
    and "list_all py_isspace w1" "list_all py_isspace w2"
  shows "py_strip (w1 @ x @ w2) = x"
proof -
  have "dropWhile py_isspace (rev w2 @ (rev x @ rev w1)) = rev x @ rev w1"
    using assms(1,3,5)
    by (intro dropWhile_blank_prefix) (simp_all add: list_all_iff hd_append hd_rev)
  then have "py_rstrip (w1 @ x @ w2) = w1 @ x"
    by (simp add: py_rstrip_def)
  then show ?thesis
    using assms(1,2,4) by (simp add: py_strip_def py_lstrip_def dropWhile_blank_prefix)
qed

lemma startswith_append_same [simp]: "startswith (p @ s) p"
  by (simp add: startswith_def)

lemma endswith_append_same [simp]: "endswith (s @ p) p"
  by (simp add: endswith_def)

lemma strip_code_fence_json_blank:
  assumes "list_all py_isspace w"
  shows "py_strip (strip_code_fence (''```json'' @ w @ ''```'')) = []"
proof (cases w)
  case Nil
  then show ?thesis
    by (simp add: strip_code_fence_def startswith_def endswith_def py_strip_blank)
next
  case (Cons a as)
  with assms have "py_isspace a" by simp
  then have "a \<noteq> CHR ''`''" using py_isspace_simps(2) by auto
  with Cons assms show ?thesis
    by (simp add: strip_code_fence_def startswith_def endswith_def py_strip_blank)
qed

lemma strip_code_fence_plain_blank:
  assumes "list_all py_isspace w"
  shows "py_strip (strip_code_fence (''```'' @ w @ ''```'')) = []"
proof (cases w)
  case Nil
  then show ?thesis
    by (simp add: strip_code_fence_def startswith_def endswith_def py_strip_blank)
next
  case (Cons a as)
  with assms have "py_isspace a" by simp
  then have "a \<noteq> CHR ''j''" using py_isspace_simps(3) by auto
  with Cons assms show ?thesis
    by (simp add: strip_code_fence_def startswith_def endswith_def py_strip_blank)
qed

lemma fenced_blank_cleans:
  assumes "list_all py_isspace w1" "list_all py_isspace w2" "list_all py_isspace w3"
    and "opening = ''```json'' \<or> opening = ''```''"
  shows "py_strip (strip_code_fence (py_strip (w1 @ (opening @ w2 @ ''```'') @ w3))) = []"
proof -
  have "py_strip (w1 @ (opening @ w2 @ ''```'') @ w3) = opening @ w2 @ ''```''"
    using assms by (intro py_strip_core) (auto simp: py_isspace_simps)
  then show ?thesis
    using assms(2,4) strip_code_fence_json_blank strip_code_fence_plain_blank by auto
qed

text \<open>
  Claim C7. An input that is empty or consists of whitespace only is repaired to the
  canonical document \<open>{"facts": []}\<close>, and so is every input that the cleaning of
  lines 70 to 80 (strip, drop the fence marks, strip) leaves empty; in particular a
  pair of fence marks, opening with \<open>```json\<close> or \<open>```\<close>, around whitespace, with
  whitespace before and after. The decoder is never consulted on these inputs, so
  the result holds for every decoder.
\<close>

theorem fix_llm_response_blank:
  "(list_all py_isspace s \<longrightarrow> fix_llm_response loads s = Inr canonical_facts)
   \<and> (py_strip (strip_code_fence (py_strip s)) = [] \<longrightarrow>
        fix_llm_response loads s = Inr canonical_facts)
   \<and> (list_all py_isspace w1 \<and> list_all py_isspace w2 \<and> list_all py_isspace w3
        \<and> (opening = ''```json'' \<or> opening = ''```'') \<longrightarrow>
        fix_llm_response loads (w1 @ (opening @ w2 @ ''```'') @ w3) = Inr canonical_facts)"
proof (intro conjI impI)
  assume "list_all py_isspace s"
  then show "fix_llm_response loads s = Inr canonical_facts"
    by (simp add: fix_llm_response_def py_strip_blank)
next
  assume "py_strip (strip_code_fence (py_strip s)) = []"
  then show "fix_llm_response loads s = Inr canonical_facts"
    by (simp add: fix_llm_response_def Let_def)
next
  assume "list_all py_isspace w1 \<and> list_all py_isspace w2 \<and> list_all py_isspace w3
        \<and> (opening = ''```json'' \<or> opening = ''```'')"
  then have "py_strip (strip_code_fence (py_strip (w1 @ (opening @ w2 @ ''```'') @ w3))) = []"
    using fenced_blank_cleans by blast
  then show "fix_llm_response loads (w1 @ (opening @ w2 @ ''```'') @ w3) = Inr canonical_facts"
    by (simp add: fix_llm_response_def Let_def)
qed

text \<open>Two spaces, and a fenced block that holds two spaces.\<close>

theorem fix_llm_response_blank_witness:
  "list_all py_isspace ''  '' \<and> fix_llm_response example_loads ''  '' = Inr canonical_facts
   \<and> fix_llm_response example_loads ('' '' @ (''```json'' @ ''  '' @ ''```'') @ '' '') = Inr canonical_facts"
proof -
  have b1: "list_all py_isspace ''  ''" and b2: "list_all py_isspace '' ''"
    by (simp_all add: py_isspace_def)
  show ?thesis
    using b1 b2 fix_llm_response_blank [of "''  ''" example_loads "'' ''" "''  ''" "'' ''" "''```json''"]
    by simp
qed

text \<open>
  The repair under the documented contract of \<open>json.loads\<close>. A decoder that, on a
  text that is not a JSON document, raises \<open>JSONDecodeError\<close> and nothing else, and
  that accepts the canonical document, makes the repair return on every input
  string, and the string it returns is accepted by the decoder.
\<close>

lemma fix_llm_response_total:
  assumes "\<forall>t e. loads t = Inl e \<longrightarrow> isinstance_JSONDecodeError e"
    and "loads canonical_facts = Inr v0"
  shows "\<exists>r v. fix_llm_response loads s = Inr r \<and> loads r = Inr v"
  using assms
  by (auto simp: fix_llm_response_def Let_def split: sum.splits)

lemma example_loads_only_decode_errors:
  "\<forall>t e. example_loads t = Inl e \<longrightarrow> isinstance_JSONDecodeError e"
  by (auto simp: example_loads_def isinstance_JSONDecodeError_def split: if_splits)

lemma example_loads_canonical:
  "example_loads canonical_facts = Inr (PDict [(''facts'', PList [])])"
  by (simp add: example_loads_def canonical_facts_def)

text \<open>
  The example decoder meets both hypotheses; on \<open>"  hello  "\<close> the repair wraps the
  text as a single fact.
\<close>

lemma fix_llm_response_total_example:
  \<open>\<exists>r v. fix_llm_response example_loads ''  hello  '' = Inr r \<and> example_loads r = Inr v\<close>
  by (rule fix_llm_response_total [OF example_loads_only_decode_errors example_loads_canonical])


text \<open>
  Outside that contract: the first \<open>try\<close> of \<open>fix_llm_response\<close> catches
  \<open>json.JSONDecodeError\<close> only, so an exception of another class raised by the first
  decoding leaves the function. The patched \<open>generate_response\<close> (lines 131 to 140)
  catches \<open>Exception\<close> around the call and answers with the canonical document.
\<close>

lemma fix_llm_response_other_exception_escapes:
  assumes "py_strip (strip_code_fence (py_strip s)) \<noteq> []"
    and "loads (py_strip (strip_code_fence (py_strip s))) = Inl e"
    and "\<not> isinstance_JSONDecodeError e"
  shows "fix_llm_response loads s = Inl e
         \<and> (isinstance_Exception e \<longrightarrow>
              patched_generate_response loads (Inr (Some s)) = Inr canonical_facts)"
proof -
  have blank: "py_strip (strip_code_fence []) = []"
    by (simp add: strip_code_fence_def startswith_def endswith_def py_strip_def
        py_rstrip_def py_lstrip_def)
  have "py_strip [] = []"
    by (simp add: py_strip_def py_rstrip_def py_lstrip_def)
  with blank assms(1) have "s \<noteq> []" "py_strip s \<noteq> []" by auto
  with assms have "fix_llm_response loads s = Inl e"
    by (simp add: fix_llm_response_def Let_def)
  then show ?thesis
    by (simp add: patched_generate_response_def)
qed

lemma patched_generate_response_absorbs:
  assumes "\<forall>t e. loads t = Inl e \<longrightarrow> isinstance_Exception e"
    and "\<forall>e. original = Inl e \<longrightarrow> isinstance_Exception e"
  shows "\<exists>r. patched_generate_response loads original = Inr r"
proof -
  have "\<And>s e. fix_llm_response loads s = Inl e \<Longrightarrow> isinstance_Exception e"
    using assms(1)
    by (auto simp: fix_llm_response_def Let_def split: if_splits sum.splits)
  then show ?thesis
    using assms(2)
    by (auto simp: patched_generate_response_def Let_def split: sum.splits option.splits)
qed

text \<open>
  An input that is a run of one character that is neither whitespace nor a backquote
  passes the cleaning of lines 70 to 80 unchanged.
\<close>

lemma startswith_replicate:
  "startswith (replicate n c) p \<Longrightarrow> set p \<subseteq> {c}"
proof -
  assume "startswith (replicate n c) p"
  then have "p = replicate (min (length p) n) c" by (simp add: startswith_def)
  then have "set p \<subseteq> set (replicate (min (length p) n) c)" by simp
  then show ?thesis by (auto simp del: replicate_eq_replicate)
qed

lemma endswith_replicate:
  "endswith (replicate n c) p \<Longrightarrow> set p \<subseteq> {c}"
proof -
  assume "endswith (replicate n c) p"
  then have "p = drop (n - length p) (replicate n c)" by (simp add: endswith_def)
  then have "set p \<subseteq> set (replicate n c)" by (metis set_drop_subset)
  then show ?thesis by auto
qed

lemma strip_code_fence_replicate:
  "c \<noteq> CHR 0x60 \<Longrightarrow> strip_code_fence (replicate n c) = replicate n c"
proof -
  assume c: "c \<noteq> CHR 0x60"
  have 1: "\<not> startswith (replicate n c) ''```json''"
    using startswith_replicate [of n c "''```json''"] c by auto
  have 2: "\<not> startswith (replicate n c) ''```''"
    using startswith_replicate [of n c "''```''"] c by auto
  have 3: "\<not> endswith (replicate n c) ''```''"
    using endswith_replicate [of n c "''```''"] c by auto
  show ?thesis
    using 1 2 3 by (simp add: strip_code_fence_def)
qed

lemma py_strip_replicate:
  "\<not> py_isspace c \<Longrightarrow> py_strip (replicate n c) = replicate n c"
proof (cases n)
  case 0
  then show ?thesis by (simp add: py_strip_def py_rstrip_def py_lstrip_def)
next
  case (Suc m)
  assume c: "\<not> py_isspace c"
  have "py_strip ([] @ replicate n c @ []) = replicate n c"
    using Suc c by (intro py_strip_core) simp_all
  then show ?thesis by simp
qed

lemma cleaned_digits:
  "py_strip (strip_code_fence (py_strip (replicate n CHR ''1''))) = replicate n CHR ''1''"
proof -
  have s: "\<not> py_isspace CHR ''1''" by (simp add: py_isspace_def)
  show ?thesis
    by (simp add: py_strip_replicate [OF s] strip_code_fence_replicate)
qed

text \<open>The decoder on integer literals: 42 is decoded, 4301 digits are refused.\<close>

lemma loads_with_int_limit_short:
  "loads_with_int_limit ''42'' = Inr (PInt 42)"
  by (simp add: loads_with_int_limit_def int_max_str_digits_def is_decimal_digit_def
      digits_value_def)

lemma loads_with_int_limit_long:
  "loads_with_int_limit (replicate 4301 CHR ''1'')
   = Inl (Exn ValueError ''Exceeds the limit (4300 digits) for integer string conversion: value has 4301 digits; use sys.set_int_max_str_digits() to increase the limit'')"
  by (simp add: loads_with_int_limit_def int_max_str_digits_def is_decimal_digit_def
      list_all_iff)

text \<open>
  Claim C6. For every input string the repair is meant to return, without raising, a
  string that parses as JSON: every other exit of \<open>fix_llm_response\<close> returns a JSON
  text, and the second decoding attempt has a bare \<open>except\<close> that answers with the
  canonical document. The first attempt (lines 88 to 92) catches
  \<open>json.JSONDecodeError\<close> only. On the input made of 4301 digits \<open>1\<close> the cleaning
  changes nothing, \<open>json.loads\<close> raises \<open>ValueError\<close> for the integer that is too
  long, and the exception leaves \<open>fix_llm_response\<close>: the repair raises.
\<close>

theorem fix_llm_response_raises_on_long_integer:
  "fix_llm_response loads_with_int_limit (replicate 4301 CHR ''1'')
   = Inl (Exn ValueError ''Exceeds the limit (4300 digits) for integer string conversion: value has 4301 digits; use sys.set_int_max_str_digits() to increase the limit'')"
proof -
  let ?e = "Exn ValueError ''Exceeds the limit (4300 digits) for integer string conversion: value has 4301 digits; use sys.set_int_max_str_digits() to increase the limit''"
  have n: "\<not> isinstance_JSONDecodeError ?e"
    by (simp add: isinstance_JSONDecodeError_def)
  have c: "py_strip (strip_code_fence (py_strip (replicate 4301 CHR ''1''))) \<noteq> []"
    by (simp add: cleaned_digits)
  have l: "loads_with_int_limit (py_strip (strip_code_fence (py_strip (replicate 4301 CHR ''1''))))
             = Inl ?e"
    by (simp only: cleaned_digits loads_with_int_limit_long)
  show ?thesis
    using fix_llm_response_other_exception_escapes
      [where loads = loads_with_int_limit and s = "replicate 4301 CHR ''1''" and e = ?e] c l n
    by simp
qed

section \<open>Properties of the resilient client\<close>








lemma not_json_error_None: "\<not> is_json_error ''Memory client returned None''"
  by (simp add: is_json_error_def startswith_def)

lemma json_error_parse_failure: "is_json_error (str_exn parse_failure)"
  by (simp add: is_json_error_def startswith_def parse_failure_def)

text \<open>
  Claim C9. When the wrapped backend's \<open>add\<close> returns \<open>None\<close> on the direct attempt,
  \<open>ResilientMemoryClient.add\<close> raises an exception whose message is
  \<open>Memory client returned None\<close>; the message matches none of the parse-failure
  signatures, and the direct call is the only backend call made: no fallback is tried.
\<close>

theorem add_returns_None_raises:
  assumes "be tr (Call ''add'' [PStr text] kwargs) = Inr PNone"
  shows "ResilientMemoryClient_add be tr text kwargs
           = (Inl (Exn Exception ''Memory client returned None''), tr @ [Call ''add'' [PStr text] kwargs])
         \<and> \<not> is_json_error ''Memory client returned None''"
  using assms not_json_error_None
  by (simp add: ResilientMemoryClient_add_def direct_call_def isinstance_Exception_def Let_def)

text \<open>The witness: a backend that answers every call with \<open>None\<close>.\<close>

theorem add_returns_None_raises_witness:
  "ResilientMemoryClient_add (backend_returning PNone) [] ''Hi'' [(''user_id'', PStr ''u1'')]
     = (Inl (Exn Exception ''Memory client returned None''),
        [Call ''add'' [PStr ''Hi''] [(''user_id'', PStr ''u1'')]])"
proof -
  have h: "backend_returning PNone [] (Call ''add'' [PStr ''Hi''] [(''user_id'', PStr ''u1'')]) = Inr PNone"
    by (simp add: backend_returning_def)
  show ?thesis
    using add_returns_None_raises [of "backend_returning PNone" "[]" "''Hi''" "[(''user_id'', PStr ''u1'')]"] h
    by simp
qed

text \<open>
  The fallback chain of \<open>add\<close> (lines 173 to 292), path by path.

  An error of the direct call whose message matches no parse-failure signature is
  raised again, and the backend has been called once.
\<close>

lemma add_error_not_parse_failure_is_raised:
  assumes "be tr (Call ''add'' [PStr message] kwargs) = Inl e"
    and "\<not> is_json_error (str_exn e)"
  shows "ResilientMemoryClient_add be tr message kwargs
           = (Inl e, tr @ [Call ''add'' [PStr message] kwargs])"
  using assms by (simp add: ResilientMemoryClient_add_def direct_call_def Let_def)

lemma add_error_not_parse_failure_example:
  "ResilientMemoryClient_add (backend_raising (Exn Exception ''connection refused'')) []
      ''Hi'' [(''user_id'', PStr ''ana'')]
   = (Inl (Exn Exception ''connection refused''),
      [Call ''add'' [PStr ''Hi''] [(''user_id'', PStr ''ana'')]])"
proof -
  have h: "backend_raising (Exn Exception ''connection refused'') []
             (Call ''add'' [PStr ''Hi''] [(''user_id'', PStr ''ana'')])
           = Inl (Exn Exception ''connection refused'')"
    by (simp add: backend_raising_def)
  have n: "\<not> is_json_error (str_exn (Exn Exception ''connection refused''))"
    by (simp add: is_json_error_def startswith_def)
  show ?thesis
    using add_error_not_parse_failure_is_raised
      [where be = "backend_raising (Exn Exception ''connection refused'')" and tr = "[]"
         and message = "''Hi''" and kwargs = "[(''user_id'', PStr ''ana'')]"
         and e = "Exn Exception ''connection refused''"] h n
    by simp
qed

text \<open>
  The loop over the strategies and the emergency call catch \<open>Exception\<close>: with a
  backend that raises nothing outside that class they return.
\<close>

lemma try_fallbacks_returns:
  assumes "\<forall>tr c e. be tr c = Inl e \<longrightarrow> isinstance_Exception e"
  shows "\<exists>r tr'. try_fallbacks be tr message kwargs strategies = (Inr r, tr')"
proof (induction strategies arbitrary: tr)
  case Nil
  then show ?case by simp
next
  case (Cons s rest)
  obtain params modifier where s: "s = Strategy params modifier" by (cases s)
  show ?case
    using Cons.IH assms unfolding s
    by (auto simp: Let_def split: sum.splits)
qed

lemma emergency_storage_returns:
  assumes "\<forall>tr c e. be tr c = Inl e \<longrightarrow> isinstance_Exception e"
  shows "\<exists>v. emergency_storage be tr message kwargs
               = (Inr v, tr @ [emergency_call message kwargs])"
  using assms by (auto simp: emergency_storage_def Let_def split: sum.splits)

lemma fallback_strategies_dict:
  "dict_get_default kwargs ''metadata'' (PDict []) = PDict md \<Longrightarrow>
     \<exists>strategies. fallback_strategies kwargs = Inr strategies"
  by (simp add: fallback_strategies_def)

text \<open>
  When the direct call fails with a parse failure and the \<open>metadata\<close> argument is
  absent or a dict, \<open>add\<close> returns a value: it does not raise.
\<close>

lemma add_parse_failure_is_absorbed:
  assumes "\<forall>tr c e. be tr c = Inl e \<longrightarrow> isinstance_Exception e"
    and "be tr (Call ''add'' [PStr message] kwargs) = Inl e"
    and "is_json_error (str_exn e)"
    and "dict_get_default kwargs ''metadata'' (PDict []) = PDict md"
  shows "\<exists>v tr'. ResilientMemoryClient_add be tr message kwargs = (Inr v, tr')"
proof -
  let ?tr1 = "tr @ [Call ''add'' [PStr message] kwargs]"
  from assms(1,2) have ex: "isinstance_Exception e" by blast
  from assms(4) obtain strategies where f: "fallback_strategies kwargs = Inr strategies"
    using fallback_strategies_dict by blast
  obtain r tr2 where t: "try_fallbacks be ?tr1 message kwargs strategies = (Inr r, tr2)"
    using try_fallbacks_returns [OF assms(1)] by blast
  obtain v where em:
    "emergency_storage be tr2 message kwargs = (Inr v, tr2 @ [emergency_call message kwargs])"
    using emergency_storage_returns [OF assms(1)] by blast
  have "\<exists>v tr'. add_fallback be ?tr1 message kwargs = (Inr v, tr')"
    using f t em by (cases r) (simp_all add: add_fallback_def)
  then show ?thesis
    using assms(2,3) ex by (simp add: ResilientMemoryClient_add_def direct_call_def Let_def)
qed

text \<open>
  When every call of the backend raises, the four strategies and the emergency call
  are tried in turn (six calls with the direct one) and the result is the
  diagnostic payload of lines 283 to 292.
\<close>

lemma try_fallbacks_all_raise:
  assumes "\<forall>tr c. \<exists>e. be tr c = Inl e \<and> isinstance_Exception e"
  shows "\<exists>tr'. try_fallbacks be tr message kwargs strategies = (Inr None, tr')
              \<and> length tr' = length tr + length strategies"
proof (induction strategies arbitrary: tr)
  case Nil
  then show ?case by simp
next
  case (Cons s rest)
  obtain params modifier where s: "s = Strategy params modifier" by (cases s)
  let ?c = "Call ''add'' [PStr (case modifier of None \<Rightarrow> message | Some f \<Rightarrow> f message)]
              (dict_update kwargs params)"
  from assms obtain e where e: "be tr ?c = Inl e" "isinstance_Exception e" by blast
  from Cons.IH [of "tr @ [?c]"] obtain tr' where
    "try_fallbacks be (tr @ [?c]) message kwargs rest = (Inr None, tr')"
    "length tr' = length (tr @ [?c]) + length rest" by blast
  with e show ?case unfolding s by (simp add: Let_def)
qed

lemma add_exhausted_returns_diagnostic:
  assumes "\<forall>tr c. \<exists>e. be tr c = Inl e \<and> isinstance_Exception e"
    and "be tr (Call ''add'' [PStr message] kwargs) = Inl e"
    and "is_json_error (str_exn e)"
    and "dict_get_default kwargs ''metadata'' (PDict []) = PDict md"
  shows "\<exists>tr'. ResilientMemoryClient_add be tr message kwargs
                 = (Inr (all_strategies_failed message kwargs), tr')
              \<and> length tr' = length tr + 6
              \<and> last tr' = emergency_call message kwargs"
proof -
  let ?tr1 = "tr @ [Call ''add'' [PStr message] kwargs]"
  from assms(1,2) have ex: "isinstance_Exception e" by (metis sum.inject(1))
  let ?ss = "[Strategy [(''infer'', PBool False)] None,
              Strategy [(''metadata'', PDict [(''source'', PStr ''resilient_fallback'')])] None,
              Strategy [(''infer'', PBool True),
                        (''metadata'', PDict (AList.update ''retry_attempt'' (PBool True) md))] None,
              Strategy [(''infer'', PBool True)] (Some simplify_text)]"
  from assms(4) have f: "fallback_strategies kwargs = Inr ?ss"
    by (simp add: fallback_strategies_def)
  obtain tr2 where t: "try_fallbacks be ?tr1 message kwargs ?ss = (Inr None, tr2)"
    "length tr2 = length ?tr1 + length ?ss"
    using try_fallbacks_all_raise [OF assms(1)] by blast
  from assms(1) obtain e2 where e2: "be tr2 (emergency_call message kwargs) = Inl e2"
    "isinstance_Exception e2" by blast
  then have em: "emergency_storage be tr2 message kwargs
                   = (Inr (all_strategies_failed message kwargs),
                      tr2 @ [emergency_call message kwargs])"
    by (simp add: emergency_storage_def Let_def)
  have "add_fallback be ?tr1 message kwargs
          = (Inr (all_strategies_failed message kwargs), tr2 @ [emergency_call message kwargs])"
    using f t(1) em by (simp add: add_fallback_def)
  then have "ResilientMemoryClient_add be tr message kwargs
          = (Inr (all_strategies_failed message kwargs), tr2 @ [emergency_call message kwargs])"
    using assms(2,3) ex by (simp add: ResilientMemoryClient_add_def direct_call_def Let_def)
  with t(2) show ?thesis by simp
qed

lemma backend_raising_parse_failure:
  "\<forall>tr c. \<exists>e. backend_raising parse_failure tr c = Inl e \<and> isinstance_Exception e"
  by (simp add: backend_raising_def parse_failure_def isinstance_Exception_def)

lemma add_exhausted_example:
  "\<exists>tr'. ResilientMemoryClient_add (backend_raising parse_failure) [] ''My name is Ana''
            [(''user_id'', PStr ''ana'')]
          = (Inr (PDict [(''results'', PList []),
                         (''relations'', empty_relations),
                         (''diagnostic'',
                            PDict [(''all_strategies_failed'', PBool True),
                                   (''original_text_length'', PInt 14),
                                   (''kwargs_keys'', PList [PStr ''user_id''])])]), tr')
        \<and> length tr' = 6"
proof -
  have h: "backend_raising parse_failure [] (Call ''add'' [PStr ''My name is Ana'']
             [(''user_id'', PStr ''ana'')]) = Inl parse_failure"
    by (simp add: backend_raising_def)
  have m: "dict_get_default [(''user_id'', PStr ''ana'')] ''metadata'' (PDict []) = PDict []"
    by (simp add: dict_get_default_def)
  show ?thesis
    using add_exhausted_returns_diagnostic
      [OF backend_raising_parse_failure h json_error_parse_failure m]
    by (auto simp: all_strategies_failed_def)
qed

text \<open>
  Claim C4. When the direct call fails with a parse error, \<open>add\<close> is meant never to
  raise. The list of fallback strategies is built outside every \<open>try\<close>, and its third
  entry unpacks the caller's \<open>metadata\<close> keyword: with \<open>metadata=None\<close> (the default
  of the backend's own \<open>add\<close>) the unpacking raises \<open>TypeError\<close>, which leaves
  \<open>add\<close> before any fallback strategy has been tried.
\<close>

theorem add_unpacks_metadata_outside_try:
  "ResilientMemoryClient_add (backend_raising parse_failure) [] ''x'' [(''metadata'', PNone)]
     = (Inl (Exn TypeError ([CHR 0x27] @ ''NoneType'' @ [CHR 0x27] @ '' object is not a mapping'')),
        [Call ''add'' [PStr ''x''] [(''metadata'', PNone)]])"
  using json_error_parse_failure
  by (simp add: ResilientMemoryClient_add_def direct_call_def backend_raising_def
      isinstance_Exception_def Let_def add_fallback_def fallback_strategies_def
      dict_get_default_def parse_failure_def)







section \<open>Properties of the access filter\<close>

lemma UUID_Inr: "UUID E idv = Inr u \<Longrightarrow> \<exists>s. idv = PStr s \<and> uuid_UUID E s = Some u"
  by (cases idv) (auto split: option.splits)

lemma check_candidate_Some:
  "check_candidate E d app_id c = Inr (Some (m, u)) \<Longrightarrow> m = c \<and> has_id E c u"
  unfolding has_id_def
  by (auto simp: check_candidate_def split: sum.splits if_splits option.splits dest: UUID_Inr)

lemma envelope_step_Some:
  "envelope_step E d app_id c = Inr (Some (m, u)) \<Longrightarrow> m = c \<and> has_id E c u"
  by (auto simp: envelope_step_def split: sum.splits if_splits dest: check_candidate_Some)

lemma list_step_Some:
  "list_step E d app_id c = Inr (Some (m, u)) \<Longrightarrow> m = c \<and> has_id E c u"
  by (auto simp: list_step_def split: if_splits dest: envelope_step_Some)

lemma filter_loop_sound:
  assumes "filter_loop step xs ms ids = Inr (ms', ids')"
    and "\<And>c m u. step c = Inr (Some (m, u)) \<Longrightarrow> m = c \<and> P c u"
  shows "set ms' \<subseteq> set ms \<union> {c \<in> set xs. \<exists>u. P c u}
         \<and> set ids' \<subseteq> set ids \<union> {u. \<exists>c \<in> set xs. P c u}"
  using assms(1)
proof (induction xs arbitrary: ms ids)
  case Nil
  then show ?case by simp
next
  case (Cons x xs)
  show ?case
  proof (cases "step x")
    case (Inl e)
    with Cons.prems show ?thesis by simp
  next
    case (Inr r)
    show ?thesis
    proof (cases r)
      case None
      with Inr Cons.prems have "filter_loop step xs ms ids = Inr (ms', ids')" by simp
      from Cons.IH [OF this] show ?thesis by auto
    next
      case (Some mi)
      with Inr Cons.prems
      have "filter_loop step xs (ms @ [fst mi]) (ids @ [snd mi]) = Inr (ms', ids')" by simp
      from Cons.IH [OF this] assms(2) [of x "fst mi" "snd mi"] Inr Some
      show ?thesis by auto
    qed
  qed
qed

lemma iterated_record_with_id:
  "py_iter results = Inr items \<Longrightarrow> c \<in> set items \<Longrightarrow> py_getitem c ''id'' = Inr v
   \<Longrightarrow> results = PList items"
  by (cases results) auto

lemma filter_accessible_memories_subset:
  "set (fst (filter_accessible_memories E d memories user_id app_id)) \<subseteq> set (candidates memories)
   \<and> set (snd (filter_accessible_memories E d memories user_id app_id)) \<subseteq> candidate_ids E memories"
proof (cases memories)
  case (PList xs)
  show ?thesis
  proof (cases "filter_loop (list_step E d app_id) xs [] []")
    case (Inl e)
    with PList show ?thesis
      by (simp add: filter_accessible_memories_def split: option.splits)
  next
    case (Inr found)
    obtain ms ids where f: "found = (ms, ids)" by (cases found)
    have fl: "filter_loop (list_step E d app_id) xs [] [] = Inr (ms, ids)"
      using Inr f by simp
    have "set ms \<subseteq> set [] \<union> {c \<in> set xs. \<exists>u. has_id E c u}
          \<and> set ids \<subseteq> set [] \<union> {u. \<exists>c \<in> set xs. has_id E c u}"
      using fl by (rule filter_loop_sound) (rule list_step_Some)
    then have "set ms \<subseteq> set xs \<and> set ids \<subseteq> candidate_ids E (PList xs)"
      unfolding candidate_ids_def has_id_def candidates.simps
      by (simp add: subset_iff) blast
    with PList Inr f show ?thesis
      by (simp add: filter_accessible_memories_def split: option.splits)
  qed
next
  case (PDict e)
  show ?thesis
  proof (cases "map_of e ''results''")
    case None
    with PDict show ?thesis
      by (simp add: filter_accessible_memories_def split: option.splits)
  next
    case (Some results)
    show ?thesis
    proof (cases "py_iter results")
      case (Inl ex)
      with PDict Some show ?thesis
        by (simp add: filter_accessible_memories_def split: option.splits)
    next
      case items: (Inr items)
      show ?thesis
      proof (cases "filter_loop (envelope_step E d app_id) items [] []")
        case (Inl ex)
        with PDict Some items show ?thesis
          by (simp add: filter_accessible_memories_def split: option.splits)
      next
        case (Inr found)
        obtain ms ids where f: "found = (ms, ids)" by (cases found)
        have fl: "filter_loop (envelope_step E d app_id) items [] [] = Inr (ms, ids)"
          using Inr f by simp
        have "set ms \<subseteq> set [] \<union> {c \<in> set items. \<exists>u. has_id E c u}
              \<and> set ids \<subseteq> set [] \<union> {u. \<exists>c \<in> set items. has_id E c u}"
          using fl by (rule filter_loop_sound) (rule envelope_step_Some)
        then have s: "set ms \<subseteq> {c \<in> set items. \<exists>u. has_id E c u}"
          "set ids \<subseteq> {u. \<exists>c \<in> set items. has_id E c u}"
          by auto
        have c: "\<And>c u. c \<in> set items \<Longrightarrow> has_id E c u \<Longrightarrow> c \<in> set (candidates (PDict e))"
          using iterated_record_with_id [OF items] Some by (fastforce simp: has_id_def)
        have "set ms \<subseteq> set (candidates (PDict e))"
          using s(1) c by blast
        moreover have "set ids \<subseteq> candidate_ids E (PDict e)"
          using s(2) c unfolding candidate_ids_def has_id_def by blast
        ultimately show ?thesis
          using PDict Some items Inr f
          by (simp add: filter_accessible_memories_def split: option.splits)
      qed
    qed
  qed
qed (simp_all add: filter_accessible_memories_def candidate_ids_def Let_def split: option.splits)

lemma filter_loop_skip:
  "step bad = Inr None \<Longrightarrow>
     filter_loop step (xs @ [bad] @ ys) ms ids = filter_loop step (xs @ ys) ms ids"
  by (induction xs arbitrary: ms ids) (auto split: sum.splits option.splits)

lemma envelope_step_bad_uuid:
  "map_of b ''id'' = Some (PStr s) \<Longrightarrow> uuid_UUID E s = None \<Longrightarrow>
     envelope_step E d app_id (PDict b) = Inr None"
  by (simp add: envelope_step_def check_candidate_def isinstance_ValueError_def)

lemma filter_skip_list:
  assumes "map_of b ''id'' = Some (PStr s)" "uuid_UUID E s = None"
  shows "filter_accessible_memories E d (PList (xs @ [PDict b] @ ys)) user_id app_id
         = filter_accessible_memories E d (PList (xs @ ys)) user_id app_id"
proof -
  have "list_step E d app_id (PDict b) = Inr None"
    using assms by (simp add: list_step_def envelope_step_bad_uuid)
  then have "filter_loop (list_step E d app_id) (xs @ [PDict b] @ ys) [] []
             = filter_loop (list_step E d app_id) (xs @ ys) [] []"
    by (rule filter_loop_skip)
  then show ?thesis
    by (cases "xs @ ys = []") (auto simp: filter_accessible_memories_def split: option.splits)
qed

lemma filter_skip_envelope:
  assumes "map_of b ''id'' = Some (PStr s)" "uuid_UUID E s = None"
    and "map_of e1 ''results'' = Some (PList (xs @ [PDict b] @ ys))"
    and "map_of e2 ''results'' = Some (PList (xs @ ys))"
  shows "filter_accessible_memories E d (PDict e1) user_id app_id
         = filter_accessible_memories E d (PDict e2) user_id app_id"
proof -
  have n: "e1 \<noteq> []" "e2 \<noteq> []" using assms(3,4) by auto
  have "envelope_step E d app_id (PDict b) = Inr None"
    using assms(1,2) by (rule envelope_step_bad_uuid)
  then have "filter_loop (envelope_step E d app_id) (xs @ [PDict b] @ ys) [] []
             = filter_loop (envelope_step E d app_id) (xs @ ys) [] []"
    by (rule filter_loop_skip)
  then show ?thesis
    using assms(3,4) n by (simp add: filter_accessible_memories_def split: option.splits)
qed

text \<open>
  What holds of \<open>filter_accessible_memories\<close> for every candidate collection and
  every caller: the ids returned are ids of the input candidates (each is the parsed
  \<open>id\<close> of a candidate record) and the records returned are candidate records; when
  the input is empty (falsy, or without candidate records) or the caller's user is
  not in the store, both lists are empty; and a candidate whose \<open>id\<close> is a string
  that does not parse as a UUID is skipped: the result is the one obtained without
  that candidate, for a flat list and for an envelope alike.
\<close>

lemma filter_accessible_memories_contract:
  "set (snd (filter_accessible_memories E d memories user_id app_id)) \<subseteq> candidate_ids E memories
   \<and> set (fst (filter_accessible_memories E d memories user_id app_id)) \<subseteq> set (candidates memories)
   \<and> (\<not> truthy memories \<or> candidates memories = [] \<or> query_user d user_id = None \<longrightarrow>
        filter_accessible_memories E d memories user_id app_id = ([], []))
   \<and> (map_of b ''id'' = Some (PStr s) \<and> uuid_UUID E s = None \<longrightarrow>
        filter_accessible_memories E d (PList (xs @ [PDict b] @ ys)) user_id app_id
        = filter_accessible_memories E d (PList (xs @ ys)) user_id app_id)
   \<and> (map_of b ''id'' = Some (PStr s) \<and> uuid_UUID E s = None
        \<and> map_of e1 ''results'' = Some (PList (xs @ [PDict b] @ ys))
        \<and> map_of e2 ''results'' = Some (PList (xs @ ys)) \<longrightarrow>
        filter_accessible_memories E d (PDict e1) user_id app_id
        = filter_accessible_memories E d (PDict e2) user_id app_id)"
proof -
  let ?r = "filter_accessible_memories E d memories user_id app_id"
  have sub: "set (fst ?r) \<subseteq> set (candidates memories) \<and> set (snd ?r) \<subseteq> candidate_ids E memories"
    by (rule filter_accessible_memories_subset)
  have e1: "\<not> truthy memories \<Longrightarrow> ?r = ([], [])"
    by (simp add: filter_accessible_memories_def)
  have e2: "query_user d user_id = None \<Longrightarrow> ?r = ([], [])"
    by (simp add: filter_accessible_memories_def)
  have e3: "?r = ([], [])" if c: "candidates memories = []"
  proof -
    from c have "candidate_ids E memories = {}" by (simp add: candidate_ids_def)
    with sub c have "fst ?r = [] \<and> snd ?r = []" by simp
    then show ?thesis by (simp add: prod_eq_iff)
  qed
  have empty: "\<not> truthy memories \<or> candidates memories = [] \<or> query_user d user_id = None
               \<Longrightarrow> ?r = ([], [])"
    using e1 e2 e3 by blast
  show ?thesis
    using sub empty filter_skip_list [of b s E d xs ys user_id app_id]
      filter_skip_envelope [of b s E e1 xs ys e2 d user_id app_id]
    by blast
qed

lemma example_filter:
  "filter_accessible_memories example_env example_db
     (PList [example_record, example_bad_record]) ''ana'' (''ana'', ''cursor'')
   = ([example_record], [1])"
  by (simp add: filter_accessible_memories_def example_env_def example_db_def query_user_def
      query_memory_def list_step_def envelope_step_def check_candidate_def example_record_def
      example_bad_record_def example_uuid_def isinstance_ValueError_def)

text \<open>
  An instance: an empty list, an unknown user, and the example records, of which the
  second has the id \<open>not-a-uuid\<close>.
\<close>

lemma filter_accessible_memories_contract_example:
  "filter_accessible_memories example_env example_db (PList []) ''ana'' (''ana'', ''cursor'') = ([], [])
   \<and> filter_accessible_memories example_env example_db
        (PList [example_record, example_bad_record]) ''bob'' (''ana'', ''cursor'') = ([], [])
   \<and> filter_accessible_memories example_env example_db
        (PList ([example_record] @ [example_bad_record] @ [])) ''ana'' (''ana'', ''cursor'')
      = filter_accessible_memories example_env example_db
          (PList ([example_record] @ [])) ''ana'' (''ana'', ''cursor'')
   \<and> filter_accessible_memories example_env example_db
        (PList ([example_record] @ [example_bad_record] @ [])) ''ana'' (''ana'', ''cursor'')
      = ([example_record], [1])"
proof -
  have bad: "map_of [(''id'', PStr ''not-a-uuid''), (''memory'', PStr ''Likes tea'')] ''id''
               = Some (PStr ''not-a-uuid'')
             \<and> uuid_UUID example_env ''not-a-uuid'' = None"
    by (simp add: example_env_def example_uuid_def)
  have nobody: "query_user example_db ''bob'' = None"
    by (simp add: query_user_def example_db_def)
  have falsy: "\<not> truthy (PList [])" by simp
  have 1: "filter_accessible_memories example_env example_db (PList []) ''ana'' (''ana'', ''cursor'')
             = ([], [])"
    using filter_accessible_memories_contract
      [of example_env example_db "PList []" "''ana''" "(''ana'', ''cursor'')"] falsy
    by blast
  have 2: "filter_accessible_memories example_env example_db
        (PList [example_record, example_bad_record]) ''bob'' (''ana'', ''cursor'') = ([], [])"
    using filter_accessible_memories_contract
      [of example_env example_db "PList [example_record, example_bad_record]" "''bob''"
          "(''ana'', ''cursor'')"] nobody
    by blast
  have 3: "filter_accessible_memories example_env example_db
        (PList ([example_record] @ [example_bad_record] @ [])) ''ana'' (''ana'', ''cursor'')
      = filter_accessible_memories example_env example_db
          (PList ([example_record] @ [])) ''ana'' (''ana'', ''cursor'')"
    using filter_accessible_memories_contract
      [of example_env example_db "PList []" "''ana''" "(''ana'', ''cursor'')"
          "[(''id'', PStr ''not-a-uuid''), (''memory'', PStr ''Likes tea'')]" "''not-a-uuid''"
          "[example_record]" "[]"] bad
    unfolding example_bad_record_def by blast
  show ?thesis
    using 1 2 3 example_filter by simp
qed

text \<open>
  A candidate whose \<open>id\<close> is not a string. \<open>uuid.UUID\<close> raises \<open>TypeError\<close> on
  \<open>None\<close> and \<open>AttributeError\<close> on any other value that is not a string; the inner
  handler (\<open>except ValueError\<close>, lines 106 and 120) lets both through, the loop is
  left, and the outer handler returns two empty lists, whatever the other candidates
  are.
\<close>

lemma filter_loop_error:
  "step x = Inl e \<Longrightarrow> \<exists>e'. filter_loop step (xs @ x # ys) acc ids = Inl e'"
  by (induction xs arbitrary: acc ids) (auto split: sum.splits option.splits)

lemma UUID_not_string:
  "\<forall>s. v \<noteq> PStr s \<Longrightarrow> \<exists>e. UUID E v = Inl e \<and> \<not> isinstance_ValueError e"
  by (cases v) (simp_all add: isinstance_ValueError_def)

lemma envelope_step_not_string:
  assumes "map_of b ''id'' = Some v" "\<forall>s. v \<noteq> PStr s"
  shows "\<exists>e. envelope_step E d app_id (PDict b) = Inl e"
proof -
  from UUID_not_string [OF assms(2)] obtain e where
    "UUID E v = Inl e" "\<not> isinstance_ValueError e" by blast
  with assms(1) show ?thesis
    by (simp add: envelope_step_def check_candidate_def)
qed

lemma filter_non_string_id_list:
  assumes "map_of b ''id'' = Some v" "\<forall>s. v \<noteq> PStr s"
  shows "filter_accessible_memories E d (PList (xs @ [PDict b] @ ys)) user_id app_id = ([], [])"
proof -
  from envelope_step_not_string [OF assms, where E = E and d = d and app_id = app_id]
  obtain e where "list_step E d app_id (PDict b) = Inl e" by (auto simp: list_step_def)
  then obtain e' where
    "filter_loop (list_step E d app_id) (xs @ PDict b # ys) [] [] = Inl e'"
    using filter_loop_error [where step = "list_step E d app_id" and x = "PDict b"] by blast
  then show ?thesis
    by (simp add: filter_accessible_memories_def split: option.splits)
qed

lemma filter_non_string_id_envelope:
  assumes "map_of b ''id'' = Some v" "\<forall>s. v \<noteq> PStr s"
    and "map_of e1 ''results'' = Some (PList (xs @ [PDict b] @ ys))"
  shows "filter_accessible_memories E d (PDict e1) user_id app_id = ([], [])"
proof -
  from envelope_step_not_string [OF assms(1,2), where E = E and d = d and app_id = app_id]
  obtain e where "envelope_step E d app_id (PDict b) = Inl e" by blast
  then obtain e' where
    "filter_loop (envelope_step E d app_id) (xs @ PDict b # ys) [] [] = Inl e'"
    using filter_loop_error [where step = "envelope_step E d app_id" and x = "PDict b"] by blast
  with assms(3) show ?thesis
    by (simp add: filter_accessible_memories_def split: option.splits)
qed

text \<open>
  Claim C3. The ids returned are ids of the candidates, and an empty input or an
  unknown user gives two empty lists; a candidate whose id does not parse as a UUID
  is meant to be skipped without failing the batch (the inner handlers carry the
  comment \<open>Skip invalid UUIDs\<close>). The skip is missed when the id is not a string: with
  the accessible example record next to a record whose id is the integer 123 (in a
  flat list) or \<open>None\<close> (in an envelope), the call returns two empty lists, where the
  same call without the second record returns the example record and its id.
\<close>

theorem filter_accessible_memories_loses_batch:
  "filter_accessible_memories example_env example_db
     (PList [example_record, example_int_id_record]) ''ana'' (''ana'', ''cursor'') = ([], [])
   \<and> filter_accessible_memories example_env example_db
     (PDict [(''results'', PList [example_record, example_none_id_record])])
     ''ana'' (''ana'', ''cursor'') = ([], [])
   \<and> filter_accessible_memories example_env example_db
     (PList [example_record]) ''ana'' (''ana'', ''cursor'') = ([example_record], [1])
   \<and> filter_accessible_memories example_env example_db
     (PDict [(''results'', PList [example_record])])
     ''ana'' (''ana'', ''cursor'') = ([example_record], [1])"
  by (simp add: filter_accessible_memories_def example_env_def example_db_def query_user_def
      query_memory_def list_step_def envelope_step_def check_candidate_def example_record_def
      example_int_id_record_def example_none_id_record_def example_uuid_def
      isinstance_ValueError_def)

section \<open>Properties of the session handler\<close>

text \<open>
  Claim C8. Whatever the transport and the server do (normal completion, a
  \<open>RuntimeError\<close>, any other exception while the streams are set up or served, a
  cancellation) and whatever other handlers do to the shared state meanwhile, when
  \<open>handle_sse\<close> is left its connection identifier is not in \<open>active_connections\<close>
  and both context variables hold what they held before the handler set them.
\<close>

theorem handle_sse_cleanup:
  "connection_id client_name uid (connection_counter st + 1)
     \<notin> active_connections (fst (handle_sse T st uid client_name))
   \<and> user_id_var (fst (handle_sse T st uid client_name)) = user_id_var st
   \<and> client_name_var (fst (handle_sse T st uid client_name)) = client_name_var st"
  by (simp add: handle_sse_def Let_def)

text \<open>An example: the session is cancelled while the server runs.\<close>

theorem handle_sse_cleanup_witness:
  "handle_sse \<lparr>connect_sse = None, server_run = Some (Exn BaseException ''cancelled''),
               exit_sse = (\<lambda>e. e), other_tasks = (\<lambda>st. st)\<rparr>
     \<lparr>active_connections = {}, connection_counter = 0, user_id_var = None, client_name_var = None\<rparr>
     (Some ''ana'') (Some ''cursor'')
   = (\<lparr>active_connections = {}, connection_counter = 1, user_id_var = None, client_name_var = None\<rparr>,
      Some (Exn BaseException ''cancelled''))"
  using handle_sse_cleanup [of "Some ''cursor''" "Some ''ana''"
      "\<lparr>active_connections = {}, connection_counter = 0, user_id_var = None, client_name_var = None\<rparr>"
      "\<lparr>connect_sse = None, server_run = Some (Exn BaseException ''cancelled''),
               exit_sse = (\<lambda>e. e), other_tasks = (\<lambda>st. st)\<rparr>"]
  by (simp add: handle_sse_def sse_session_def Let_def isinstance_RuntimeError_def
      isinstance_Exception_def connection_id_def format_param_def or_empty_def)

section \<open>Properties of the tools\<close>

lemma get_user_and_app_shadow:
  "get_user_and_app E d uid client_name = (user, app, d1) \<Longrightarrow>
     db_memories d1 = db_memories d \<and> db_history d1 = db_history d
     \<and> db_access_logs d1 = db_access_logs d"
  by (auto simp: get_user_and_app_def get_or_create_user_def get_or_create_app_def Let_def
           split: option.splits)

text \<open>
  Claim C10. When the caller's identity is present, the client is available and the
  backend's \<open>delete\<close> does not raise, \<open>delete_memory\<close> replies
  \<open>Successfully deleted memory {memory_id}\<close> also when \<open>memory_id\<close> is not a UUID or
  names no row of the local store; the memory rows, the history rows and the audit
  rows are then left as they were.
\<close>

theorem delete_memory_confirms_unknown_id:
  assumes "identity uid_ctx client_name_ctx = Some (uid, client_name)"
    and "get_memory_client_safe E = Some memory_client"
    and "memory_client (Call ''delete'' [PStr memory_id] [(''user_id'', PStr uid)]) = Inr response"
    and "uuid_UUID E memory_id = None
         \<or> (\<exists>u. uuid_UUID E memory_id = Some u \<and> query_memory d u = None)"
  shows "fst (delete_memory E d uid_ctx client_name_ctx memory_id)
           = Inr (''Successfully deleted memory '' @ memory_id)
         \<and> db_memories (snd (snd (delete_memory E d uid_ctx client_name_ctx memory_id))) = db_memories d
         \<and> db_history (snd (snd (delete_memory E d uid_ctx client_name_ctx memory_id))) = db_history d
         \<and> db_access_logs (snd (snd (delete_memory E d uid_ctx client_name_ctx memory_id)))
             = db_access_logs d"
proof -
  obtain user app d1 where g: "get_user_and_app E d uid client_name = (user, app, d1)"
    by (cases "get_user_and_app E d uid client_name")
  from get_user_and_app_shadow [OF g]
  have sh: "db_memories d1 = db_memories d" "db_history d1 = db_history d"
    "db_access_logs d1 = db_access_logs d" by simp_all
  have "delete_local E user app d1 memory_id = Inr d1"
    using assms(4) sh(1)
    by (auto simp: delete_local_def query_memory_def)
  then show ?thesis
    using assms(1,2,3) g sh
    by (simp add: delete_memory_def with_client_def Let_def)
qed

lemma example_identity: "identity (Some ''ana'') (Some ''cursor'') = Some (''ana'', ''cursor'')"
  by (simp add: identity_def)

lemma example_get_user_and_app:
  "get_user_and_app example_env example_db ''ana'' ''cursor''
     = (\<lparr>u_user_id = ''ana''\<rparr>,
        \<lparr>a_owner_id = ''ana'', a_name = ''cursor'', a_is_active = True\<rparr>, example_db)"
  by (simp add: get_user_and_app_def get_or_create_user_def get_or_create_app_def query_user_def
      query_app_def example_db_def Let_def)

text \<open>The witness: an id that is not a UUID, and a UUID that names no row.\<close>

theorem delete_memory_confirms_unknown_id_witness:
  "fst (delete_memory example_env example_db (Some ''ana'') (Some ''cursor'') ''not-a-uuid'')
     = Inr ''Successfully deleted memory not-a-uuid''
   \<and> db_access_logs (snd (snd (delete_memory example_env example_db (Some ''ana'') (Some ''cursor'')
        ''not-a-uuid''))) = []
   \<and> fst (delete_memory example_env example_db (Some ''ana'') (Some ''cursor'')
        ''00000000-0000-0000-0000-000000000002'')
     = Inr ''Successfully deleted memory 00000000-0000-0000-0000-000000000002''
   \<and> db_memories (snd (snd (delete_memory example_env example_db (Some ''ana'') (Some ''cursor'')
        ''00000000-0000-0000-0000-000000000002''))) = db_memories example_db"
proof -
  have c: "get_memory_client_safe example_env = Some example_client"
    by (simp add: example_env_def)
  have r1: "example_client (Call ''delete'' [PStr ''not-a-uuid''] [(''user_id'', PStr ''ana'')]) = Inr PNone"
    and r2: "example_client (Call ''delete'' [PStr ''00000000-0000-0000-0000-000000000002'']
               [(''user_id'', PStr ''ana'')]) = Inr PNone"
    by (simp_all add: example_client_def)
  have u1: "uuid_UUID example_env ''not-a-uuid'' = None
            \<or> (\<exists>u. uuid_UUID example_env ''not-a-uuid'' = Some u \<and> query_memory example_db u = None)"
    by (simp add: example_env_def example_uuid_def)
  have u2: "uuid_UUID example_env ''00000000-0000-0000-0000-000000000002'' = None
            \<or> (\<exists>u. uuid_UUID example_env ''00000000-0000-0000-0000-000000000002'' = Some u
                    \<and> query_memory example_db u = None)"
    by (simp add: example_env_def example_uuid_def query_memory_def example_db_def)
  show ?thesis
    using delete_memory_confirms_unknown_id [OF example_identity c r1 u1]
      delete_memory_confirms_unknown_id [OF example_identity c r2 u2]
    by (simp add: example_db_def)
qed


lemma example_env_fields:
  "json_loads example_env = example_loads"
  "json_dumps example_env = example_dumps"
  "py_str example_env = example_dumps"
  "uuid_UUID example_env = example_uuid"
  "check_memory_access_permissions example_env = (\<lambda>d memory app_id. m_app_id memory = app_id)"
  "get_memory_client_safe example_env = Some example_client"
  "default_is_active example_env = True"
  "utc_now example_env = 1000"
  "audit_fault example_env = None"
  by (simp_all add: example_env_def)




text \<open>
  The audit fault is read by \<open>log_memory_access\<close> only: every other part of a tool
  runs the same way with and without it.
\<close>

lemma UUID_frame [simp]: "UUID (E\<lparr>audit_fault := x\<rparr>) v = UUID E v"
  by (cases v) simp_all

lemma check_candidate_frame [simp]:
  "check_candidate (E\<lparr>audit_fault := x\<rparr>) d a = check_candidate E d a"
  by (rule ext) (simp add: check_candidate_def cong: sum.case_cong option.case_cong if_cong)

lemma envelope_step_frame [simp]:
  "envelope_step (E\<lparr>audit_fault := x\<rparr>) d a = envelope_step E d a"
  by (rule ext) (simp add: envelope_step_def cong: sum.case_cong if_cong)

lemma list_step_frame [simp]:
  "list_step (E\<lparr>audit_fault := x\<rparr>) d a = list_step E d a"
  by (rule ext) (simp add: list_step_def)

lemma filter_accessible_memories_frame [simp]:
  "filter_accessible_memories (E\<lparr>audit_fault := x\<rparr>) d m u a = filter_accessible_memories E d m u a"
  by (simp add: filter_accessible_memories_def Let_def
           cong: sum.case_cong option.case_cong if_cong)

lemma get_user_and_app_frame [simp]:
  "get_user_and_app (E\<lparr>audit_fault := x\<rparr>) d u c = get_user_and_app E d u c"
  by (simp add: get_user_and_app_def get_or_create_app_def cong: option.case_cong)

lemma mark_deleted_frame [simp]:
  "mark_deleted (E\<lparr>audit_fault := x\<rparr>) user d m = mark_deleted E user d m"
  by (simp add: mark_deleted_def cong: option.case_cong)

lemma batch_delete_loop_frame [simp]:
  "batch_delete_loop (E\<lparr>audit_fault := x\<rparr>) user ids d v = batch_delete_loop E user ids d v"
  by (induction ids arbitrary: d v) (simp_all split: sum.splits option.splits)

lemma batch_update_ids_frame [simp]:
  "batch_update_ids (E\<lparr>audit_fault := x\<rparr>) items ids = batch_update_ids E items ids"
  by (induction items arbitrary: ids) (simp_all split: sum.splits)

lemma log_memory_access_ok:
  "log_memory_access (E\<lparr>audit_fault := None\<rparr>) d ids a t md
     = Inr (d\<lparr>db_access_logs := db_access_logs d @
              map (\<lambda>memory_id. \<lparr>l_memory_id = memory_id, l_app_id = a, l_access_type = t,
                                l_metadata = md\<rparr>) ids\<rparr>)"
  by (simp add: log_memory_access_def)

lemma log_memory_access_fault:
  "log_memory_access (E\<lparr>audit_fault := Some e\<rparr>) d ids a t md = Inl e"
  by (simp add: log_memory_access_def)

lemma filter_and_log_fault:
  assumes "filter_and_log (E\<lparr>audit_fault := None\<rparr>) d uid app mems t md = Inr (reply, d')"
    and "db_access_logs d' \<noteq> db_access_logs d"
  shows "filter_and_log (E\<lparr>audit_fault := Some e\<rparr>) d uid app mems t md = Inl e"
  using assms
  by (auto simp: filter_and_log_def log_memory_access_ok log_memory_access_fault
           split: prod.splits if_splits)

lemma filter_and_log_ok:
  "\<exists>reply d'. filter_and_log (E\<lparr>audit_fault := None\<rparr>) d uid app mems t md = Inr (reply, d')"
  by (auto simp: filter_and_log_def log_memory_access_ok split: prod.splits)

lemma error_reply_parts [simp]:
  "snd (snd (error_reply prefix e calls d)) = d"
  "fst (snd (error_reply prefix e calls d)) = calls"
  "isinstance_Exception e \<Longrightarrow> fst (error_reply prefix e calls d) = Inr (prefix @ str_exn e)"
  by (simp_all add: error_reply_def)

lemma search_memory_audit:
  assumes "isinstance_Exception e"
    and "db_access_logs (snd (snd (search_memory (E\<lparr>audit_fault := None\<rparr>) d u c q l f)))
           \<noteq> db_access_logs d"
  shows "fst (search_memory (E\<lparr>audit_fault := Some e\<rparr>) d u c q l f)
           = Inr (''Error searching memory: '' @ str_exn e)"
proof (cases "identity u c")
  case None
  with assms(2) show ?thesis by (simp add: search_memory_def with_client_def)
next
  case (Some ident)
  show ?thesis
  proof (cases "get_memory_client_safe E")
    case None
    with Some assms(2) show ?thesis by (simp add: search_memory_def with_client_def)
  next
    case cl: (Some client)
    obtain user app d1 where g: "get_user_and_app E d (fst ident) (snd ident) = (user, app, d1)"
      by (cases "get_user_and_app E d (fst ident) (snd ident)")
    note sh = get_user_and_app_shadow [OF g]
    show ?thesis
    proof (cases "json_loads E f")
      case (Inl ex)
      with Some cl g sh assms(2) show ?thesis
        by (auto simp: search_memory_def with_client_def split: if_splits)
    next
      case (Inr filters_dict)
      let ?c = "Call ''search'' []
                 ([(''query'', PStr q), (''user_id'', PStr (fst ident)), (''limit'', PInt l)]
                  @ (if truthy filters_dict then [(''filters'', filters_dict)] else []))"
      show ?thesis
      proof (cases "client ?c")
        case (Inl ex)
        with Some cl g sh Inr assms(2) show ?thesis
          by (simp add: search_memory_def with_client_def Let_def)
      next
        case found: (Inr found)
        let ?m = "if found = PNone then PList [] else found"
        let ?md = "\<lambda>n. [(''query'', PStr q), (''results_count'', PInt (int n))]"
        obtain reply d2 where
          ok: "filter_and_log (E\<lparr>audit_fault := None\<rparr>) d1 (fst ident) app ?m ''search'' ?md
                 = Inr (reply, d2)"
          using filter_and_log_ok by blast
        with Some cl g sh Inr found assms(2) have "db_access_logs d2 \<noteq> db_access_logs d1"
          by (simp add: search_memory_def with_client_def Let_def)
        from filter_and_log_fault [OF ok this]
        have "filter_and_log (E\<lparr>audit_fault := Some e\<rparr>) d1 (fst ident) app ?m ''search'' ?md = Inl e" .
        with Some cl g Inr found assms(1) show ?thesis
          by (simp add: search_memory_def with_client_def Let_def)
      qed
    qed
  qed
qed


lemma list_memories_audit:
  assumes "isinstance_Exception e"
    and "db_access_logs (snd (snd (list_memories (E\<lparr>audit_fault := None\<rparr>) d u c)))
           \<noteq> db_access_logs d"
  shows "fst (list_memories (E\<lparr>audit_fault := Some e\<rparr>) d u c)
           = Inr (''Error listing memories: '' @ str_exn e)"
proof -
  from assms(2) obtain uid cn client where
    w: "identity u c = Some (uid, cn)" "get_memory_client_safe E = Some client"
    by (auto simp: list_memories_def with_client_def split: option.splits)
  obtain user app d1 where g: "get_user_and_app E d uid cn = (user, app, d1)"
    by (cases "get_user_and_app E d uid cn")
  note sh = get_user_and_app_shadow [OF g]
  show ?thesis
    using assms w g sh
    by (auto simp: list_memories_def with_client_def Let_def
             split: sum.splits if_splits
             dest: filter_and_log_fault [where e = e])
qed

lemma log_single_access_ok:
  "\<exists>d'. log_single_access (E\<lparr>audit_fault := None\<rparr>) d app mid t md = Inr d'"
  by (simp add: log_single_access_def log_memory_access_ok split: option.splits)

lemma log_single_access_fault:
  assumes "log_single_access (E\<lparr>audit_fault := None\<rparr>) d app mid t md = Inr d'"
    and "db_access_logs d' \<noteq> db_access_logs d"
    and "\<not> isinstance_ValueError e"
  shows "log_single_access (E\<lparr>audit_fault := Some e\<rparr>) d app mid t md = Inl e"
  using assms
  by (auto simp: log_single_access_def log_memory_access_ok log_memory_access_fault
           split: option.splits)

lemma get_memory_audit:
  assumes "isinstance_Exception e" "\<not> isinstance_ValueError e"
    and "db_access_logs (snd (snd (get_memory (E\<lparr>audit_fault := None\<rparr>) d u c mid)))
           \<noteq> db_access_logs d"
  shows "fst (get_memory (E\<lparr>audit_fault := Some e\<rparr>) d u c mid)
           = Inr (''Error getting memory: '' @ str_exn e)"
proof -
  from assms(3) obtain uid cn client where
    w: "identity u c = Some (uid, cn)" "get_memory_client_safe E = Some client"
    by (auto simp: get_memory_def with_client_def split: option.splits)
  obtain user app d1 where g: "get_user_and_app E d uid cn = (user, app, d1)"
    by (cases "get_user_and_app E d uid cn")
  note sh = get_user_and_app_shadow [OF g]
  show ?thesis
    using assms w g sh
    by (auto simp: get_memory_def with_client_def Let_def
             split: sum.splits if_splits
             dest: log_single_access_fault [where e = e])
qed


lemma update_memory_audit:
  assumes "isinstance_Exception e" "\<not> isinstance_ValueError e"
    and "db_access_logs (snd (snd (update_memory (E\<lparr>audit_fault := None\<rparr>) d u c mid text md)))
           \<noteq> db_access_logs d"
  shows "fst (update_memory (E\<lparr>audit_fault := Some e\<rparr>) d u c mid text md)
           = Inr (''Error updating memory: '' @ str_exn e)"
proof -
  from assms(3) obtain uid cn client where
    w: "identity u c = Some (uid, cn)" "get_memory_client_safe E = Some client"
    by (auto simp: update_memory_def with_client_def split: option.splits)
  obtain user app d1 where g: "get_user_and_app E d uid cn = (user, app, d1)"
    by (cases "get_user_and_app E d uid cn")
  note sh = get_user_and_app_shadow [OF g]
  show ?thesis
    using assms w g sh
    by (auto simp: update_memory_def with_client_def Let_def
             split: sum.splits if_splits
             dest: log_single_access_fault [where e = e])
qed

lemma get_memory_history_audit:
  assumes "isinstance_Exception e" "\<not> isinstance_ValueError e"
    and "db_access_logs (snd (snd (get_memory_history (E\<lparr>audit_fault := None\<rparr>) d u c mid)))
           \<noteq> db_access_logs d"
  shows "fst (get_memory_history (E\<lparr>audit_fault := Some e\<rparr>) d u c mid)
           = Inr (''Error getting memory history: '' @ str_exn e)"
proof -
  from assms(3) obtain uid cn client where
    w: "identity u c = Some (uid, cn)" "get_memory_client_safe E = Some client"
    by (auto simp: get_memory_history_def with_client_def split: option.splits)
  obtain user app d1 where g: "get_user_and_app E d uid cn = (user, app, d1)"
    by (cases "get_user_and_app E d uid cn")
  note sh = get_user_and_app_shadow [OF g]
  show ?thesis
    using assms w g sh
    by (auto simp: get_memory_history_def with_client_def Let_def
             split: sum.splits if_splits
             dest: log_single_access_fault [where e = e])
qed

lemma mark_deleted_logs [simp]:
  "db_access_logs (mark_deleted E user d m) = db_access_logs d"
  by (simp add: mark_deleted_def split: option.splits)

lemma fold_mark_deleted_logs [simp]:
  "db_access_logs (fold (\<lambda>memory_id acc. mark_deleted E user acc memory_id) ids d) = db_access_logs d"
  by (induction ids arbitrary: d) simp_all

lemma batch_delete_loop_logs:
  "batch_delete_loop E user ids d v = Inr (d2, v2) \<Longrightarrow> db_access_logs d2 = db_access_logs d"
  by (induction ids arbitrary: d v) (auto split: sum.splits option.splits if_splits)

lemma delete_local_fault:
  assumes "delete_local (E\<lparr>audit_fault := None\<rparr>) user app d mid = Inr d'"
    and "db_access_logs d' \<noteq> db_access_logs d"
    and "\<not> isinstance_ValueError e"
  shows "delete_local (E\<lparr>audit_fault := Some e\<rparr>) user app d mid = Inl e"
  using assms
  by (auto simp: delete_local_def log_memory_access_ok log_memory_access_fault
           split: option.splits)

lemma delete_memory_audit:
  assumes "isinstance_Exception e" "\<not> isinstance_ValueError e"
    and "db_access_logs (snd (snd (delete_memory (E\<lparr>audit_fault := None\<rparr>) d u c mid)))
           \<noteq> db_access_logs d"
  shows "fst (delete_memory (E\<lparr>audit_fault := Some e\<rparr>) d u c mid)
           = Inr (''Error deleting memory: '' @ str_exn e)"
proof -
  from assms(3) obtain uid cn client where
    w: "identity u c = Some (uid, cn)" "get_memory_client_safe E = Some client"
    by (auto simp: delete_memory_def with_client_def split: option.splits)
  obtain user app d1 where g: "get_user_and_app E d uid cn = (user, app, d1)"
    by (cases "get_user_and_app E d uid cn")
  note sh = get_user_and_app_shadow [OF g]
  show ?thesis
    using assms w g sh
    by (auto simp: delete_memory_def with_client_def Let_def
             split: sum.splits if_splits
             dest: delete_local_fault [where e = e])
qed

lemma delete_all_memories_audit:
  assumes "isinstance_Exception e"
    and "db_access_logs (snd (snd (delete_all_memories (E\<lparr>audit_fault := None\<rparr>) d u c)))
           \<noteq> db_access_logs d"
  shows "fst (delete_all_memories (E\<lparr>audit_fault := Some e\<rparr>) d u c)
           = Inr (''Error deleting memories: '' @ str_exn e)"
proof -
  from assms(2) obtain uid cn client where
    w: "identity u c = Some (uid, cn)" "get_memory_client_safe E = Some client"
    by (auto simp: delete_all_memories_def with_client_def split: option.splits)
  obtain user app d1 where g: "get_user_and_app E d uid cn = (user, app, d1)"
    by (cases "get_user_and_app E d uid cn")
  note sh = get_user_and_app_shadow [OF g]
  show ?thesis
    using assms w g sh
    by (auto simp: delete_all_memories_def with_client_def Let_def
                   log_memory_access_ok log_memory_access_fault
             split: sum.splits if_splits)
qed

lemma batch_update_memories_audit:
  assumes "isinstance_Exception e"
    and "db_access_logs (snd (snd (batch_update_memories (E\<lparr>audit_fault := None\<rparr>) d u c js)))
           \<noteq> db_access_logs d"
  shows "fst (batch_update_memories (E\<lparr>audit_fault := Some e\<rparr>) d u c js)
           = Inr (''Error in batch update: '' @ str_exn e)"
proof -
  from assms(2) obtain uid cn client where
    w: "identity u c = Some (uid, cn)" "get_memory_client_safe E = Some client"
    by (auto simp: batch_update_memories_def with_client_def split: option.splits)
  obtain user app d1 where g: "get_user_and_app E d uid cn = (user, app, d1)"
    by (cases "get_user_and_app E d uid cn")
  note sh = get_user_and_app_shadow [OF g]
  show ?thesis
    using assms w g sh
    by (auto simp: batch_update_memories_def with_client_def Let_def
                   log_memory_access_ok log_memory_access_fault
             split: sum.splits if_splits pyval.splits)
qed

lemma batch_delete_memories_audit:
  assumes "isinstance_Exception e"
    and "db_access_logs (snd (snd (batch_delete_memories (E\<lparr>audit_fault := None\<rparr>) d u c js)))
           \<noteq> db_access_logs d"
  shows "fst (batch_delete_memories (E\<lparr>audit_fault := Some e\<rparr>) d u c js)
           = Inr (''Error in batch delete: '' @ str_exn e)"
proof -
  from assms(2) obtain uid cn client where
    w: "identity u c = Some (uid, cn)" "get_memory_client_safe E = Some client"
    by (auto simp: batch_delete_memories_def with_client_def split: option.splits)
  obtain user app d1 where g: "get_user_and_app E d uid cn = (user, app, d1)"
    by (cases "get_user_and_app E d uid cn")
  note sh = get_user_and_app_shadow [OF g]
  show ?thesis
    using assms w g sh
    by (auto simp: batch_delete_memories_def with_client_def Let_def
                   log_memory_access_ok log_memory_access_fault
             split: sum.splits if_splits pyval.splits prod.splits
             dest: batch_delete_loop_logs)
qed


lemma add_result_step_logs:
  "add_result_step E user app d result = Inr d' \<Longrightarrow> db_access_logs d' = db_access_logs d"
  by (auto simp: add_result_step_def split: sum.splits option.splits if_splits)

lemma add_results_loop_logs:
  "add_results_loop E user app items d = Inr d' \<Longrightarrow> db_access_logs d' = db_access_logs d"
  by (induction items arbitrary: d) (auto split: sum.splits dest: add_result_step_logs)

lemma record_add_response_logs:
  "record_add_response E user app d response = Inr d' \<Longrightarrow> db_access_logs d' = db_access_logs d"
  by (auto simp: record_add_response_def split: sum.splits if_splits dest: add_results_loop_logs)

lemma add_memories_writes_no_audit:
  "db_access_logs (snd (snd (add_memories E d u c text md infer))) = db_access_logs d"
proof (cases "identity u c")
  case None
  then show ?thesis by (simp add: add_memories_def with_client_def)
next
  case (Some ident)
  obtain user app d1 where g: "get_user_and_app E d (fst ident) (snd ident) = (user, app, d1)"
    by (cases "get_user_and_app E d (fst ident) (snd ident)")
  note sh = get_user_and_app_shadow [OF g]
  show ?thesis
    using Some g sh
    by (auto simp: add_memories_def with_client_def Let_def
             split: option.splits sum.splits if_splits dest: record_add_response_logs)
qed

text \<open>
  Claim C2, as the code has it. Take a tool call that appends audit rows when the
  audit store works (the rows of the access log grow). If appending fails with an
  \<open>Exception\<close> instead, the same call returns the tool's error string with the
  exception's message, never its success payload. This holds for the mutating tools
  and for \<open>search_memory\<close> and \<open>list_memories\<close> alike: the read tools do not return
  their records. For \<open>get_memory\<close>, \<open>update_memory\<close>, \<open>delete_memory\<close> and
  \<open>get_memory_history\<close> the exception must not be a \<open>ValueError\<close>, which their
  handler for a malformed id passes over. \<open>add_memories\<close> appends no audit rows.
\<close>

theorem audit_failure_is_reported:
  assumes "isinstance_Exception e"
  shows "(db_access_logs (snd (snd (search_memory (E\<lparr>audit_fault := None\<rparr>) d u c query limit filters)))
            \<noteq> db_access_logs d \<longrightarrow>
          fst (search_memory (E\<lparr>audit_fault := Some e\<rparr>) d u c query limit filters)
            = Inr (''Error searching memory: '' @ str_exn e))
       \<and> (db_access_logs (snd (snd (list_memories (E\<lparr>audit_fault := None\<rparr>) d u c)))
            \<noteq> db_access_logs d \<longrightarrow>
          fst (list_memories (E\<lparr>audit_fault := Some e\<rparr>) d u c)
            = Inr (''Error listing memories: '' @ str_exn e))
       \<and> (db_access_logs (snd (snd (delete_all_memories (E\<lparr>audit_fault := None\<rparr>) d u c)))
            \<noteq> db_access_logs d \<longrightarrow>
          fst (delete_all_memories (E\<lparr>audit_fault := Some e\<rparr>) d u c)
            = Inr (''Error deleting memories: '' @ str_exn e))
       \<and> (db_access_logs (snd (snd (batch_update_memories (E\<lparr>audit_fault := None\<rparr>) d u c payload)))
            \<noteq> db_access_logs d \<longrightarrow>
          fst (batch_update_memories (E\<lparr>audit_fault := Some e\<rparr>) d u c payload)
            = Inr (''Error in batch update: '' @ str_exn e))
       \<and> (db_access_logs (snd (snd (batch_delete_memories (E\<lparr>audit_fault := None\<rparr>) d u c payload)))
            \<noteq> db_access_logs d \<longrightarrow>
          fst (batch_delete_memories (E\<lparr>audit_fault := Some e\<rparr>) d u c payload)
            = Inr (''Error in batch delete: '' @ str_exn e))
       \<and> (\<not> isinstance_ValueError e
            \<and> db_access_logs (snd (snd (get_memory (E\<lparr>audit_fault := None\<rparr>) d u c memory_id)))
                \<noteq> db_access_logs d \<longrightarrow>
          fst (get_memory (E\<lparr>audit_fault := Some e\<rparr>) d u c memory_id)
            = Inr (''Error getting memory: '' @ str_exn e))
       \<and> (\<not> isinstance_ValueError e
            \<and> db_access_logs (snd (snd (update_memory (E\<lparr>audit_fault := None\<rparr>) d u c memory_id text
                 metadata))) \<noteq> db_access_logs d \<longrightarrow>
          fst (update_memory (E\<lparr>audit_fault := Some e\<rparr>) d u c memory_id text metadata)
            = Inr (''Error updating memory: '' @ str_exn e))
       \<and> (\<not> isinstance_ValueError e
            \<and> db_access_logs (snd (snd (delete_memory (E\<lparr>audit_fault := None\<rparr>) d u c memory_id)))
                \<noteq> db_access_logs d \<longrightarrow>
          fst (delete_memory (E\<lparr>audit_fault := Some e\<rparr>) d u c memory_id)
            = Inr (''Error deleting memory: '' @ str_exn e))
       \<and> (\<not> isinstance_ValueError e
            \<and> db_access_logs (snd (snd (get_memory_history (E\<lparr>audit_fault := None\<rparr>) d u c memory_id)))
                \<noteq> db_access_logs d \<longrightarrow>
          fst (get_memory_history (E\<lparr>audit_fault := Some e\<rparr>) d u c memory_id)
            = Inr (''Error getting memory history: '' @ str_exn e))
       \<and> db_access_logs (snd (snd (add_memories E d u c text metadata infer))) = db_access_logs d"
  using assms search_memory_audit [of e E d u c query limit filters]
    list_memories_audit [of e E d u c] delete_all_memories_audit [of e E d u c]
    batch_update_memories_audit [of e E d u c payload]
    batch_delete_memories_audit [of e E d u c payload]
    get_memory_audit [of e E d u c memory_id]
    update_memory_audit [of e E d u c memory_id "text" metadata]
    delete_memory_audit [of e E d u c memory_id]
    get_memory_history_audit [of e E d u c memory_id]
    add_memories_writes_no_audit [of E d u c "text" metadata infer]
  by blast

lemma example_filter_envelope:
  "filter_accessible_memories example_env example_db
     (PDict [(''results'', PList [example_record, example_bad_record])]) ''ana'' (''ana'', ''cursor'')
   = ([example_record], [1])"
  by (simp add: filter_accessible_memories_def example_env_fields example_db_def query_user_def
      query_memory_def envelope_step_def check_candidate_def example_record_def
      example_bad_record_def example_uuid_def isinstance_ValueError_def)

lemma example_search_call:
  "example_client (Call ''search'' []
      [(''query'', PStr ''coffee''), (''user_id'', PStr ''ana''), (''limit'', PInt 10)])
   = Inr (PDict [(''results'', PList [example_record, example_bad_record])])"
  by (simp add: example_client_def)

lemma example_db_logs: "db_access_logs example_db = []"
  by (simp add: example_db_def)

lemma example_search_run:
  "search_memory (example_env\<lparr>audit_fault := x\<rparr>) example_db (Some ''ana'') (Some ''cursor'')
     ''coffee'' 10 ''{}''
   = (case x of
        None \<Rightarrow>
          (Inr (example_dumps (PList [example_record])),
           [Call ''search'' []
              [(''query'', PStr ''coffee''), (''user_id'', PStr ''ana''), (''limit'', PInt 10)]],
           example_db\<lparr>db_access_logs :=
             [\<lparr>l_memory_id = 1, l_app_id = (''ana'', ''cursor''), l_access_type = ''search'',
               l_metadata = [(''query'', PStr ''coffee''), (''results_count'', PInt 1)]\<rparr>]\<rparr>)
      | Some e \<Rightarrow>
          error_reply ''Error searching memory: '' e
            [Call ''search'' []
               [(''query'', PStr ''coffee''), (''user_id'', PStr ''ana''), (''limit'', PInt 10)]]
            example_db)"
  using example_search_call
  by (simp add: search_memory_def with_client_def example_identity example_get_user_and_app
      example_env_fields example_loads_def filter_and_log_def example_filter_envelope
      log_memory_access_def app_id_of_def example_db_logs Let_def split: option.splits)

text \<open>
  The claim as stated fails for the read tools: the example search returns one
  record when the audit store works, and an error string when it does not.
\<close>

theorem search_memory_audit_failure_hides_results:
  "fst (search_memory example_env example_db (Some ''ana'') (Some ''cursor'') ''coffee'' 10 ''{}'')
     = Inr (json_dumps example_env (PList [example_record]))
   \<and> fst (search_memory (example_env\<lparr>audit_fault := Some audit_down\<rparr>) example_db
        (Some ''ana'') (Some ''cursor'') ''coffee'' 10 ''{}'')
     = Inr ''Error searching memory: database is locked''"
proof -
  have "example_env\<lparr>audit_fault := None\<rparr> = example_env"
    by (simp add: example_env_def)
  with example_search_run [of None] example_search_run [of "Some audit_down"]
  show ?thesis
    by (simp add: example_env_fields error_reply_def audit_down_def isinstance_Exception_def)
qed

text \<open>The witness: the example search with the audit store down.\<close>

theorem audit_failure_is_reported_witness:
  "fst (search_memory (example_env\<lparr>audit_fault := Some audit_down\<rparr>) example_db
        (Some ''ana'') (Some ''cursor'') ''coffee'' 10 ''{}'')
     = Inr (''Error searching memory: '' @ str_exn audit_down)"
proof -
  have h: "isinstance_Exception audit_down"
    by (simp add: audit_down_def isinstance_Exception_def)
  have r: "db_access_logs (snd (snd (search_memory (example_env\<lparr>audit_fault := None\<rparr>) example_db
             (Some ''ana'') (Some ''cursor'') ''coffee'' 10 ''{}''))) \<noteq> db_access_logs example_db"
    using example_search_run [of None] by (simp add: example_db_def)
  show ?thesis
    using audit_failure_is_reported [OF h, of example_env example_db "Some ''ana''" "Some ''cursor''"
        "''coffee''" 10 "''{}''"] r
    by blast
qed

end
